theory Spec2Isabelle
  imports Complex_Main "HOL-Library.AList" "HOL-Library.Log_Nat"
begin

section \<open>Numbers\<close>

text \<open>
  The program is TypeScript; every quantity is a JavaScript \<open>number\<close>, an IEEE 754
  binary64 value or one of \<open>Infinity\<close>, \<open>-Infinity\<close>, \<open>NaN\<close>. The risk gauge and the
  screener compare and add quantities that the embedding reads as reals, with each guard
  against a zero divisor written where the source has it. The mean confidence of the
  aggregator is a sum and a quotient that are rounded to binary64 at every step, and the
  embedding computes it so: \<open>binary64\<close> is rounding to nearest, ties to even, with
  gradual underflow and overflow to infinity. Negative zero is not distinguished from zero.
\<close>

datatype number = Num real | PosInf | NegInf | NaN

definition pow2 :: "int \<Rightarrow> real" where
  "pow2 e = (if 0 \<le> e then 2 ^ nat e else 1 / 2 ^ nat (- e))"

definition expo :: "real \<Rightarrow> int" where
  \<comment> \<open>for \<open>x > 0\<close>, the \<open>e\<close> with \<open>2 ^ e \<le> x < 2 ^ (e + 1)\<close>\<close>
  "expo x = (if 1 \<le> x then bitlen \<lfloor>x\<rfloor> - 1 else - bitlen (\<lceil>1 / x\<rceil> - 1))"

definition rne :: "real \<Rightarrow> int" where
  \<comment> \<open>the nearest integer, a tie going to the even one\<close>
  "rne m =
     (let f = \<lfloor>m\<rfloor>; d = m - of_int f
      in if d < 1 / 2 then f else if 1 / 2 < d then f + 1 else if even f then f else f + 1)"

definition binary64 :: "real \<Rightarrow> number" where
  \<comment> \<open>53 significant bits, exponents from -1022 to 1023\<close>
  "binary64 x =
     (if x = 0 then Num 0
      else
        let e = max (expo \<bar>x\<bar>) (- 1022);
            u = pow2 (e - 52);
            y = of_int (rne (x / u)) * u
        in if pow2 1024 \<le> \<bar>y\<bar> then (if 0 < x then PosInf else NegInf) else Num y)"

fun js_add :: "number \<Rightarrow> number \<Rightarrow> number" where
  "js_add (Num x) (Num y) = binary64 (x + y)"
| "js_add NaN b = NaN"
| "js_add a NaN = NaN"
| "js_add PosInf NegInf = NaN"
| "js_add NegInf PosInf = NaN"
| "js_add PosInf b = PosInf"
| "js_add a PosInf = PosInf"
| "js_add NegInf b = NegInf"
| "js_add a NegInf = NegInf"

fun js_div :: "number \<Rightarrow> number \<Rightarrow> number" where
  "js_div (Num x) (Num y) =
     (if y = 0 then (if x = 0 then NaN else if 0 < x then PosInf else NegInf)
      else binary64 (x / y))"
| "js_div NaN b = NaN"
| "js_div a NaN = NaN"
| "js_div (Num x) b = Num 0"
| "js_div PosInf (Num y) = (if y < 0 then NegInf else PosInf)"
| "js_div NegInf (Num y) = (if y < 0 then PosInf else NegInf)"
| "js_div a b = NaN"

fun Math_round :: "number \<Rightarrow> number" where
  \<comment> \<open>\<open>Math.round\<close>: the nearest integer, a tie going to the larger one\<close>
  "Math_round (Num x) = Num (of_int \<lfloor>x + 1 / 2\<rfloor>)"
| "Math_round a = a"

definition Math_ceil :: "real \<Rightarrow> int" where
  "Math_ceil x = \<lceil>x\<rceil>"

section \<open>Risk gauge (\<open>RiskGauge.calcMetrics\<close>)\<close>

record Position =
  p_code :: string
  p_name :: string
  p_cost :: real
  p_shares :: real

record PortfolioSummary =
  cash :: real
  totalAssets :: real
  totalMarketValue :: real
  totalPnl :: real
  todayPnl :: real
  positions :: "Position list"

text \<open>The local constants of \<open>calcMetrics\<close>, each as the source computes it.\<close>

definition positionRatio :: "PortfolioSummary \<Rightarrow> real" where
  "positionRatio portfolio = (totalMarketValue portfolio / totalAssets portfolio) * 100"

definition maxPositionValue :: "PortfolioSummary \<Rightarrow> real" where
  \<comment> \<open>\<open>positions.length > 0 ? Math.max(...positions.map(p => p.shares * p.cost)) : 0\<close>\<close>
  "maxPositionValue portfolio =
     (case map (\<lambda>p. p_shares p * p_cost p) (positions portfolio) of
        [] \<Rightarrow> 0
      | v # vs \<Rightarrow> fold max vs v)"

definition concentration :: "PortfolioSummary \<Rightarrow> real" where
  "concentration portfolio = (maxPositionValue portfolio / totalAssets portfolio) * 100"

definition totalCost :: "PortfolioSummary \<Rightarrow> real" where
  \<comment> \<open>\<open>positions.reduce((s, p) => s + p.shares * p.cost, 0)\<close>\<close>
  "totalCost portfolio = foldl (\<lambda>s p. s + p_shares p * p_cost p) 0 (positions portfolio)"

definition currentPnlPct :: "PortfolioSummary \<Rightarrow> real" where
  "currentPnlPct portfolio =
     (if totalCost portfolio > 0 then (totalPnl portfolio / totalCost portfolio) * 100 else 0)"

text \<open>
  \<open>calcMetrics\<close> returns the array of default metrics, which has no \<open>score\<close>, when there
  is no portfolio or its total assets are not positive, and otherwise an object with the
  score and the metric rows. The embedding keeps the score: \<open>None\<close> is the default array.
  The metric rows (labels, values rounded for display, limits) are presentation and are
  left out.
\<close>

definition calcMetrics :: "PortfolioSummary option \<Rightarrow> real option" where
  "calcMetrics pf =
     (case pf of
        None \<Rightarrow> None
      | Some portfolio \<Rightarrow>
          if totalAssets portfolio \<le> 0 then None
          else
            let score = 20;
                score = (if positionRatio portfolio > 85 then score + 20
                         else if positionRatio portfolio > 70 then score + 10 else score);
                score = (if concentration portfolio > 50 then score + 25
                         else if concentration portfolio > 30 then score + 10 else score);
                score = (if currentPnlPct portfolio < -5 then score + 20
                         else if currentPnlPct portfolio < -3 then score + 10 else score)
            in Some (min score 100))"

definition targetScore :: "PortfolioSummary option \<Rightarrow> real" where
  \<comment> \<open>\<open>typeof result === 'number' ? result : result.score ?? 35\<close>\<close>
  "targetScore pf = (case calcMetrics pf of None \<Rightarrow> 35 | Some score \<Rightarrow> score)"

datatype RiskLevel = LowRisk | MediumRisk | HighRisk

definition riskLevel :: "real \<Rightarrow> RiskLevel" where
  "riskLevel riskScore =
     (if riskScore < 30 then LowRisk else if riskScore < 60 then MediumRisk else HighRisk)"

section \<open>Signal aggregation (\<open>AgentDecisions.calcOverall\<close>)\<close>

datatype Signal = Bullish | Bearish | Neutral

text \<open>
  The \<open>confidence\<close> of a verdict is the number as the agents' response writes it; the value
  the program holds after parsing is its binary64 rounding, the same number when it is a
  binary64 value already.
\<close>

record LLMSignal =
  signal :: Signal
  confidence :: real
  reasoning :: string

text \<open>
  A \<open>Record<string, V>\<close> is an object with string keys: an association list in insertion
  order, whose keys are distinct. A property read is \<open>map_of\<close>, a property write is
  \<open>AList.update\<close> (in place for a key that is there, appended otherwise).
\<close>

type_synonym 'v Record = "(string \<times> 'v) list"

definition Object_values :: "'v Record \<Rightarrow> 'v list" where
  "Object_values obj = map snd obj"

definition Object_entries :: "'v Record \<Rightarrow> (string \<times> 'v) list" where
  "Object_entries obj = obj"

record Overall =
  ov_signal :: Signal
  ov_confidence :: number
  ov_bullish :: int
  ov_bearish :: int
  ov_neutral :: int

definition calcOverall :: "LLMSignal Record \<Rightarrow> Overall" where
  "calcOverall agentSignals =
     (let vals = Object_values agentSignals in
      if length vals = 0
      then \<lparr>ov_signal = Neutral, ov_confidence = Num 0, ov_bullish = 0, ov_bearish = 0,
            ov_neutral = 0\<rparr>
      else
        let bullish = int (length (filter (\<lambda>v. signal v = Bullish) vals));
            bearish = int (length (filter (\<lambda>v. signal v = Bearish) vals));
            neutral = int (length vals) - bullish - bearish;
            majority = Math_ceil (real (length vals) / 2);
            sig = (if bullish \<ge> majority then Bullish
                   else if bearish \<ge> majority then Bearish else Neutral);
            conf = Math_round
                     (js_div (foldl (\<lambda>s v. js_add s (binary64 (confidence v))) (Num 0) vals)
                             (Num (real (length vals))))
        in \<lparr>ov_signal = sig, ov_confidence = conf,
            ov_bullish = bullish, ov_bearish = bearish, ov_neutral = neutral\<rparr>)"

section \<open>Holding analysis (\<open>AgentDecisions.fetchAnalysis\<close>)\<close>

record holding =
  h_code :: string
  h_name :: string
  h_cost :: real
  h_shares :: "real option"

text \<open>
  \<open>StockQuote\<close> is declared in both versions of the component with the same required
  fields; the record carries the optional fields of both.
\<close>

record StockQuote =
  q_code :: string
  q_symbol :: "string option"
  current :: real
  percent :: real
  chg :: real
  high :: real
  low :: real
  q_open :: real
  last_close :: real
  volume :: "real option"
  amount :: "real option"
  turnover_rate :: "real option"
  pe_ttm :: "real option"
  pb :: "real option"

record HoldingAnalysis =
  a_code :: string
  a_name :: string
  price :: real
  change :: real
  pnlPct :: real
  overallSignal :: Signal
  overallConfidence :: number
  agentSignals :: "LLMSignal Record"

text \<open>The parsed bodies of \<open>/api/quote\<close> and \<open>/api/agents\<close>.\<close>

record quoteData =
  q_success :: bool
  q_data :: "StockQuote list option"

record agentData =
  a_success :: bool
  a_error :: "string option"
  a_data :: "(LLMSignal Record) Record option"

text \<open>
  The loop over \<open>Object.entries(agentSignalsMap)\<close>: an agent that has no signal for the
  code writes nothing.
\<close>

definition collectSignals :: "(LLMSignal Record) Record \<Rightarrow> string \<Rightarrow> LLMSignal Record" where
  "collectSignals agentSignalsMap code =
     foldl (\<lambda>acc (agentName, signals).
              case map_of signals code of
                Some v \<Rightarrow> AList.update agentName v acc
              | None \<Rightarrow> acc)
           [] (Object_entries agentSignalsMap)"

definition analyseHolding ::
  "StockQuote list \<Rightarrow> (LLMSignal Record) Record \<Rightarrow> holding \<Rightarrow> HoldingAnalysis" where
  "analyseHolding allQuotes agentSignalsMap h =
     (let q = find (\<lambda>d. q_code d = h_code h) allQuotes;
          price = (case q of Some d \<Rightarrow> current d | None \<Rightarrow> 0);
          change = (case q of Some d \<Rightarrow> percent d | None \<Rightarrow> 0);
          pnlPct = (if h_cost h > 0 then ((price - h_cost h) / h_cost h) * 100 else 0);
          agentSignals = collectSignals agentSignalsMap (h_code h);
          overall = calcOverall agentSignals
      in \<lparr>a_code = h_code h, a_name = h_name h, price = price, change = change,
          pnlPct = pnlPct, overallSignal = ov_signal overall,
          overallConfidence = ov_confidence overall, agentSignals = agentSignals\<rparr>)"

text \<open>
  What one run of \<open>fetchAnalysis\<close> does to the component's state: nothing (no holdings),
  an error message, or a new list of analyses. \<open>DefaultBackendError\<close> is the built-in
  message used when the response carries none; \<open>TypeError\<close> is the exception caught when a
  successful quote response has no \<open>data\<close> array to search.
\<close>

datatype error_message = Message string | DefaultBackendError | TypeError

datatype fetch_outcome = NoChange | SetError error_message | SetAnalyses "HoldingAnalysis list"

definition fetchAnalysis :: "holding list \<Rightarrow> quoteData \<Rightarrow> agentData \<Rightarrow> fetch_outcome" where
  "fetchAnalysis holdings quoteResp agentResp =
     (if length holdings = 0 then NoChange
      else if \<not> a_success agentResp then
        SetError (case a_error agentResp of
                    Some e \<Rightarrow> if e = [] then DefaultBackendError else Message e
                  | None \<Rightarrow> DefaultBackendError)
      else
        let agentSignalsMap = (case a_data agentResp of Some m \<Rightarrow> m | None \<Rightarrow> [])
        in if q_success quoteResp then
             (case q_data quoteResp of
                Some allQuotes \<Rightarrow> SetAnalyses (map (analyseHolding allQuotes agentSignalsMap) holdings)
              | None \<Rightarrow> SetError TypeError)
           else SetAnalyses (map (analyseHolding [] agentSignalsMap) holdings))"

section \<open>The earlier component: five built-in analysts (\<open>fetchAll\<close>)\<close>

text \<open>
  The holdings of the earlier component are a constant. The display names are Chinese;
  they are given as their UTF-8 bytes.
\<close>

definition HOLDINGS :: "holding list" where
  "HOLDINGS =
     [\<lparr>h_code = ''300394'',
       h_name = [CHR 0xE5, CHR 0xA4, CHR 0xA9, CHR 0xE5, CHR 0xAD, CHR 0x9A,
                 CHR 0xE9, CHR 0x80, CHR 0x9A, CHR 0xE4, CHR 0xBF, CHR 0xA1],
       h_cost = 280.50, h_shares = None\<rparr>,
      \<lparr>h_code = ''002916'',
       h_name = [CHR 0xE6, CHR 0xB7, CHR 0xB1, CHR 0xE5, CHR 0x8D, CHR 0x97,
                 CHR 0xE7, CHR 0x94, CHR 0xB5, CHR 0xE8, CHR 0xB7, CHR 0xAF],
       h_cost = 220.00, h_shares = None\<rparr>,
      \<lparr>h_code = ''600183'',
       h_name = [CHR 0xE7, CHR 0x94, CHR 0x9F, CHR 0xE7, CHR 0x9B, CHR 0x8A,
                 CHR 0xE7, CHR 0xA7, CHR 0x91, CHR 0xE6, CHR 0x8A, CHR 0x80],
       h_cost = 58.30, h_shares = None\<rparr>,
      \<lparr>h_code = ''300308'',
       h_name = [CHR 0xE4, CHR 0xB8, CHR 0xAD, CHR 0xE9, CHR 0x99, CHR 0x85,
                 CHR 0xE6, CHR 0x97, CHR 0xAD, CHR 0xE5, CHR 0x88, CHR 0x9B],
       h_cost = 510.00, h_shares = None\<rparr>,
      \<lparr>h_code = ''002463'',
       h_name = [CHR 0xE6, CHR 0xB2, CHR 0xAA, CHR 0xE7, CHR 0x94, CHR 0xB5,
                 CHR 0xE8, CHR 0x82, CHR 0xA1, CHR 0xE4, CHR 0xBB, CHR 0xBD],
       h_cost = 65.40, h_shares = None\<rparr>,
      \<lparr>h_code = ''300502'',
       h_name = [CHR 0xE6, CHR 0x96, CHR 0xB0, CHR 0xE6, CHR 0x98, CHR 0x93,
                 CHR 0xE7, CHR 0x9B, CHR 0x9B],
       h_cost = 350.00, h_shares = None\<rparr>]"

datatype TradeSignal = Buy | Sell | Hold

record AgentAnalysis =
  agent :: string
  aa_signal :: TradeSignal
  aa_confidence :: real
  points :: "string list"

record StockAnalysis =
  sa_code :: string
  sa_name :: string
  sa_price :: real
  sa_change :: real
  sa_pnlPct :: real
  sa_overallSignal :: TradeSignal
  sa_overallConfidence :: number
  agents :: "AgentAnalysis list"

text \<open>The parsed body of \<open>/api/market\<close>, and of \<open>/api/sector-stocks\<close>.\<close>

record index =
  i_code :: string
  i_name :: string
  changePercent :: real

record sector =
  sec_code :: string
  sec_name :: string
  sec_change :: real
  flow :: real
  flowRate :: real

record marketData =
  md_success :: bool
  indices :: "index list option"
  sectors :: "sector list option"

definition emptyObject :: marketData where
  \<comment> \<open>the \<open>{}\<close> handed to the analysts when the market request failed\<close>
  "emptyObject = \<lparr>md_success = False, indices = None, sectors = None\<rparr>"

record SectorStock =
  s_code :: string
  s_name :: string
  s_price :: real
  changePct :: real
  mainNetInflow :: real

record sectorData =
  sd_success :: bool
  stocks :: "SectorStock list"

text \<open>
  The five analysts are heuristics over one quote; each returns an \<open>AgentAnalysis\<close>.
  The results below hold whatever the analysts compute, so the embedding takes them as
  given functions with the arguments the source passes. Their confidences are binary64
  values, which \<open>binary64\<close> leaves as they are.
\<close>

record Analysts =
  runMarketAnalyst :: "StockQuote \<Rightarrow> marketData \<Rightarrow> AgentAnalysis"
  runTechAnalyst :: "StockQuote \<Rightarrow> AgentAnalysis"
  runFundAnalyst :: "StockQuote \<Rightarrow> holding \<Rightarrow> AgentAnalysis"
  runSentimentAnalyst :: "StockQuote \<Rightarrow> marketData \<Rightarrow> AgentAnalysis"
  runRiskManager :: "StockQuote \<Rightarrow> holding \<Rightarrow> StockQuote list \<Rightarrow> AgentAnalysis"

definition buildStockAnalysis ::
  "Analysts \<Rightarrow> StockQuote \<Rightarrow> holding \<Rightarrow> marketData \<Rightarrow> StockQuote list \<Rightarrow> StockAnalysis" where
  \<comment> \<open>the division is by the cost of one of \<open>HOLDINGS\<close>, never zero\<close>
  "buildStockAnalysis an q h md allQuotes =
     (let pnlPct = ((current q - h_cost h) / h_cost h) * 100;
          agents = [runMarketAnalyst an q md, runTechAnalyst an q, runFundAnalyst an q h,
                    runSentimentAnalyst an q md, runRiskManager an q h allQuotes];
          buyVotes = length (filter (\<lambda>a. aa_signal a = Buy) agents);
          sellVotes = length (filter (\<lambda>a. aa_signal a = Sell) agents);
          overallSignal = (if sellVotes \<ge> 3 then Sell else if buyVotes \<ge> 3 then Buy else Hold);
          overallConfidence =
            Math_round
              (js_div (foldl (\<lambda>s a. js_add s (binary64 (aa_confidence a))) (Num 0) agents)
                      (Num (real (length agents))))
      in \<lparr>sa_code = q_code q, sa_name = h_name h, sa_price = current q, sa_change = percent q,
          sa_pnlPct = pnlPct, sa_overallSignal = overallSignal,
          sa_overallConfidence = overallConfidence, agents = agents\<rparr>)"

text \<open>
  The first half of \<open>fetchAll\<close>: the analyses it stores, \<open>None\<close> when the quote request
  failed and the state is left as it was. A holding with no quote gives \<open>null\<close>, which
  \<open>filter(Boolean)\<close> removes.
\<close>

definition fetchAll_analyses :: "Analysts \<Rightarrow> quoteData \<Rightarrow> marketData \<Rightarrow> StockAnalysis list option" where
  "fetchAll_analyses an quoteResp md =
     (if q_success quoteResp then
        (case q_data quoteResp of
           None \<Rightarrow> None
         | Some allQuotes \<Rightarrow>
             Some (List.map_filter
                     (\<lambda>h. case find (\<lambda>d. q_code d = h_code h) allQuotes of
                            None \<Rightarrow> None
                          | Some q \<Rightarrow>
                              Some (buildStockAnalysis an q h
                                      (if md_success md then md else emptyObject) allQuotes))
                     HOLDINGS))
      else None)"

subsection \<open>The buy candidate\<close>

record BuyCandidate =
  bc_code :: string
  bc_name :: string
  bc_price :: real
  bc_change :: real
  sectorName :: string
  score :: real

text \<open>
  The local constants of the second half of \<open>fetchAll\<close>, over any list of holdings; the
  component applies them to \<open>HOLDINGS\<close>. The comparator \<open>b.mainNetInflow - a.mainNetInflow\<close>
  sorts by inflow, largest first, and the sort is stable. The \<open>reasons\<close> of the
  candidate are display strings and are left out.
\<close>

definition holdingCodes :: "holding list \<Rightarrow> string set" where
  "holdingCodes hs = set (map h_code hs)"

definition available :: "holding list \<Rightarrow> SectorStock list \<Rightarrow> SectorStock list" where
  "available hs sts = filter (\<lambda>s. s_code s \<notin> holdingCodes hs) sts"

definition eligible :: "SectorStock \<Rightarrow> bool" where
  "eligible s \<longleftrightarrow> changePct s > 1 \<and> changePct s < 9 \<and> mainNetInflow s > 0"

definition candidates :: "holding list \<Rightarrow> SectorStock list \<Rightarrow> SectorStock list" where
  "candidates hs sts = sort_key (\<lambda>s. - mainNetInflow s) (filter eligible (available hs sts))"

definition pick :: "holding list \<Rightarrow> SectorStock list \<Rightarrow> SectorStock option" where
  \<comment> \<open>\<open>candidates[0] || available[0]\<close>\<close>
  "pick hs sts =
     (case candidates hs sts of
        c # _ \<Rightarrow> Some c
      | [] \<Rightarrow> (case available hs sts of a # _ \<Rightarrow> Some a | [] \<Rightarrow> None))"

definition pickScore :: "SectorStock \<Rightarrow> real" where
  "pickScore p = min 85 (60 + mainNetInflow p / 100000000 * 2)"

definition screen :: "holding list \<Rightarrow> sector \<Rightarrow> SectorStock list \<Rightarrow> BuyCandidate option" where
  "screen hs topSector sts =
     (case pick hs sts of
        None \<Rightarrow> None
      | Some p \<Rightarrow>
          Some \<lparr>bc_code = s_code p, bc_name = s_name p, bc_price = s_price p,
                bc_change = changePct p, sectorName = sec_name topSector,
                score = pickScore p\<rparr>)"

text \<open>
  The second half of \<open>fetchAll\<close>; \<open>fetchSectorStocks\<close> is the response of
  \<open>/api/sector-stocks\<close> for a sector code. \<open>None\<close>: no candidate is stored.
\<close>

definition fetchAll_buyCandidate :: "marketData \<Rightarrow> (string \<Rightarrow> sectorData) \<Rightarrow> BuyCandidate option" where
  "fetchAll_buyCandidate md fetchSectorStocks =
     (if md_success md then
        (case sectors md of
           Some (topSector # _) \<Rightarrow>
             (let sectorResp = fetchSectorStocks (sec_code topSector)
              in if sd_success sectorResp
                 then screen HOLDINGS topSector (stocks sectorResp)
                 else None)
         | _ \<Rightarrow> None)
      else None)"

section \<open>Vocabulary of the properties, and concrete inputs\<close>

definition verdictOf :: "string \<Rightarrow> string \<times> LLMSignal Record \<Rightarrow> (string \<times> LLMSignal) option" where
  \<comment> \<open>the verdict one agent returned for a code, if it returned one\<close>
  "verdictOf code e = map_option (Pair (fst e)) (map_of (snd e) code)"

definition hasQuote :: "StockQuote list \<Rightarrow> holding \<Rightarrow> bool" where
  \<comment> \<open>the batched quote response resolves the holding\<close>
  "hasQuote allQuotes h \<longleftrightarrow> find (\<lambda>d. q_code d = h_code h) allQuotes \<noteq> None"

definition verdict :: "Signal \<Rightarrow> real \<Rightarrow> LLMSignal" where
  "verdict s c = \<lparr>signal = s, confidence = c, reasoning = ''''\<rparr>"

definition panel_3_1_1 :: "LLMSignal Record" where
  "panel_3_1_1 =
     [(''WarrenBuffett'', verdict Bullish 70), (''CharlieMunger'', verdict Bullish 80),
      (''BenGraham'', verdict Bearish 60), (''PeterLynch'', verdict Bullish 50),
      (''RiskManager'', verdict Neutral 58)]"

definition panel_2_2_1 :: "LLMSignal Record" where
  "panel_2_2_1 =
     [(''WarrenBuffett'', verdict Bullish 70), (''CharlieMunger'', verdict Bullish 80),
      (''BenGraham'', verdict Bearish 60), (''PeterLynch'', verdict Bearish 50),
      (''RiskManager'', verdict Neutral 55)]"

definition tie_1_1 :: "LLMSignal Record" where
  "tie_1_1 = [(''WarrenBuffett'', verdict Bullish 70), (''BenGraham'', verdict Bearish 70)]"

definition near_half :: "LLMSignal Record" where
  \<comment> \<open>two binary64 confidences: \<open>70.5 - 2 ^ -46\<close>, the value just below 70.5, and 70.5\<close>
  "near_half =
     [(''WarrenBuffett'', verdict Bullish (4960996464525311 / 70368744177664)),
      (''BenGraham'', verdict Bullish (141 / 2))]"

definition decimals :: "LLMSignal Record" where
  \<comment> \<open>confidences as a response writes them, none of them a binary64 value\<close>
  "decimals =
     [(''WarrenBuffett'', verdict Bullish 69.6), (''CharlieMunger'', verdict Bullish 84.3),
      (''RiskManager'', verdict Neutral 60.6)]"

definition agentSignalsMap_example :: "(LLMSignal Record) Record" where
  \<comment> \<open>three agents; the second returned nothing for 600519\<close>
  "agentSignalsMap_example =
     [(''WarrenBuffett'', [(''600519'', verdict Bullish 70), (''000001'', verdict Neutral 40)]),
      (''BenGraham'', [(''000001'', verdict Bearish 65)]),
      (''RiskManager'', [(''600519'', verdict Bearish 55)])]"

definition quoteOf :: "string \<Rightarrow> real \<Rightarrow> real \<Rightarrow> StockQuote" where
  "quoteOf c p pc =
     \<lparr>q_code = c, q_symbol = None, current = p, percent = pc, chg = 0, high = p, low = p,
      q_open = p, last_close = p, volume = None, amount = None, turnover_rate = None,
      pe_ttm = None, pb = None\<rparr>"

definition unquoted :: holding where
  "unquoted = \<lparr>h_code = ''600519'', h_name = ''Moutai'', h_cost = 1500, h_shares = Some 100\<rparr>"

definition holdAt60 :: "string \<Rightarrow> AgentAnalysis" where
  "holdAt60 a = \<lparr>agent = a, aa_signal = Hold, aa_confidence = 60, points = []\<rparr>"

definition analysts_example :: Analysts where
  "analysts_example =
     \<lparr>runMarketAnalyst = (\<lambda>q md. holdAt60 ''MarketAnalyst''),
      runTechAnalyst = (\<lambda>q. holdAt60 ''TechAnalyst''),
      runFundAnalyst = (\<lambda>q h. holdAt60 ''FundAnalyst''),
      runSentimentAnalyst = (\<lambda>q md. holdAt60 ''SentimentAnalyst''),
      runRiskManager = (\<lambda>q h qs. holdAt60 ''RiskManager'')\<rparr>"

definition quotes_example :: quoteData where
  \<comment> \<open>a successful response that resolves two of the six holdings\<close>
  "quotes_example =
     \<lparr>q_success = True, q_data = Some [quoteOf ''600183'' 60 1.5, quoteOf ''300394'' 300 (-2)]\<rparr>"

definition stockOf :: "string \<Rightarrow> real \<Rightarrow> real \<Rightarrow> SectorStock" where
  "stockOf c pc inflow =
     \<lparr>s_code = c, s_name = c, s_price = 10, changePct = pc, mainNetInflow = inflow\<rparr>"

definition sector_example :: sector where
  "sector_example =
     \<lparr>sec_code = ''BK0477'', sec_name = ''BK0477'', sec_change = 2, flow = 1000000000,
      flowRate = 5\<rparr>"

definition stocks_none_eligible :: "SectorStock list" where
  \<comment> \<open>a held symbol, a stock that barely moved, a stock at the daily limit\<close>
  "stocks_none_eligible =
     [stockOf ''300394'' 3 900000000, stockOf ''000002'' 0.5 300000000,
      stockOf ''000004'' 10 500000000]"

definition stocks_with_held :: "SectorStock list" where
  "stocks_with_held =
     [stockOf ''300394'' 3 900000000, stockOf ''000002'' 2 100000000,
      stockOf ''000004'' 4 500000000]"

definition scenario :: PortfolioSummary where
  \<comment> \<open>one position, cost 100, 10 shares, current price 130; total assets 2000\<close>
  "scenario =
     \<lparr>cash = 2000 - 10 * 130, totalAssets = 2000, totalMarketValue = 10 * 130,
      totalPnl = 10 * (130 - 100), todayPnl = 0,
      positions = [\<lparr>p_code = ''600000'', p_name = ''A'', p_cost = 100, p_shares = 10\<rparr>]\<rparr>"

definition spread :: PortfolioSummary where
  \<comment> \<open>the same totals as \<open>scenario\<close>, the cost split over two positions\<close>
  "spread =
     scenario\<lparr>positions :=
       [\<lparr>p_code = ''600000'', p_name = ''A'', p_cost = 100, p_shares = 5\<rparr>,
        \<lparr>p_code = ''600001'', p_name = ''B'', p_cost = 100, p_shares = 5\<rparr>]\<rparr>"

definition stressed :: PortfolioSummary where
  \<comment> \<open>90% invested in one position that has lost 10%\<close>
  "stressed =
     \<lparr>cash = 100, totalAssets = 1000, totalMarketValue = 900, totalPnl = -100, todayPnl = 0,
      positions = [\<lparr>p_code = ''600000'', p_name = ''A'', p_cost = 10, p_shares = 100\<rparr>]\<rparr>"

definition market_example :: marketData where
  "market_example = \<lparr>md_success = True, indices = Some [], sectors = Some [sector_example]\<rparr>"

definition sectorStocks_example :: "string \<Rightarrow> sectorData" where
  "sectorStocks_example c = \<lparr>sd_success = True, stocks = stocks_none_eligible\<rparr>"

definition otherQuote :: quoteData where
  \<comment> \<open>a successful response that carries a quote, but not for 600519\<close>
  "otherQuote = \<lparr>q_success = True, q_data = Some [quoteOf ''000001'' 12 1]\<rparr>"

definition noSignals :: agentData where
  "noSignals = \<lparr>a_success = True, a_error = None, a_data = Some []\<rparr>"

definition candidate_example :: BuyCandidate where
  "candidate_example =
     \<lparr>bc_code = ''000004'', bc_name = ''000004'', bc_price = 10, bc_change = 4,
      sectorName = ''BK0477'', score = 70\<rparr>"

definition outflow_small :: SectorStock where
  "outflow_small = stockOf ''000002'' 0.5 (-100000000)"

definition outflow_large :: SectorStock where
  "outflow_large = stockOf ''000004'' 0.5 (-200000000)"

section \<open>The risk score\<close>

lemma calcMetrics_Some:
  "0 < totalAssets p \<Longrightarrow>
   calcMetrics (Some p) =
     Some (min (20
       + (if positionRatio p > 85 then 20 else if positionRatio p > 70 then 10 else 0)
       + (if concentration p > 50 then 25 else if concentration p > 30 then 10 else 0)
       + (if currentPnlPct p < -5 then 20 else if currentPnlPct p < -3 then 10 else 0)) 100)"
  by (simp add: calcMetrics_def Let_def)

lemmas risk_defs =
  positionRatio_def concentration_def maxPositionValue_def currentPnlPct_def totalCost_def

text \<open>
  C6. With positive total assets the score is 20, plus 20 for an exposure ratio above 85
  or else 10 above 70, plus 25 for a concentration above 50 or else 10 above 30, plus 20
  for a P&L percent below -5 or else 10 below -3, clamped to [0,100]; the level is low
  below 30, medium below 60, high otherwise.
\<close>

theorem risk_score_formula:
  assumes "0 < totalAssets p"
  shows "targetScore (Some p) =
           max 0 (min 100 (20
             + (if positionRatio p > 85 then 20 else if positionRatio p > 70 then 10 else 0)
             + (if concentration p > 50 then 25 else if concentration p > 30 then 10 else 0)
             + (if currentPnlPct p < -5 then 20 else if currentPnlPct p < -3 then 10 else 0)))
       \<and> riskLevel (targetScore (Some p)) =
           (if targetScore (Some p) < 30 then LowRisk
            else if targetScore (Some p) < 60 then MediumRisk else HighRisk)"
  using assms by (simp add: targetScore_def calcMetrics_Some riskLevel_def)

theorem risk_score_formula_witness:
  "0 < totalAssets stressed \<and> positionRatio stressed = 90 \<and> concentration stressed = 100
   \<and> currentPnlPct stressed = -10 \<and> targetScore (Some stressed) = 85
   \<and> riskLevel (targetScore (Some stressed)) = HighRisk"
proof -
  have pos: "0 < totalAssets stressed" by (simp add: stressed_def)
  have vals: "positionRatio stressed = 90 \<and> concentration stressed = 100
      \<and> currentPnlPct stressed = -10"
    by (simp add: stressed_def risk_defs)
  from risk_score_formula [OF pos] vals
  have sc: "targetScore (Some stressed) = 85" by simp
  from risk_score_formula [OF pos] sc
  have "riskLevel (targetScore (Some stressed)) = HighRisk" by simp
  with pos vals sc show ?thesis by simp
qed

text \<open>
  C8, as stated, fails: for the holding with cost 100, 10 shares and current price 130 in
  a portfolio of 2000, the concentration is not 65, the score is not the base 20 and the
  level is not low.
\<close>

theorem scenario_not_base:
  "concentration scenario \<noteq> 65 \<and> targetScore (Some scenario) \<noteq> 20
   \<and> riskLevel (targetScore (Some scenario)) \<noteq> LowRisk"
  by (simp add: scenario_def risk_defs targetScore_def calcMetrics_def riskLevel_def Let_def)

text \<open>
  C8, amended. For that input the exposure ratio is 65 and the P&L percent is +30, but
  the concentration is cost times shares over total assets, 1000 / 2000, which is 50. No
  exposure or loss increment applies; the concentration is above 30 and not above 50, so
  the score is 20 + 10 = 30, and the level is medium.
\<close>

theorem scenario_score:
  "positionRatio scenario = 65 \<and> concentration scenario = 50 \<and> currentPnlPct scenario = 30
   \<and> calcMetrics (Some scenario) = Some (20 + 10) \<and> targetScore (Some scenario) = 30
   \<and> riskLevel (targetScore (Some scenario)) = MediumRisk"
  by (simp add: scenario_def risk_defs targetScore_def calcMetrics_def riskLevel_def Let_def)

text \<open>
  C9. Two portfolios with the same exposure ratio and the same P&L percent: the one with
  the larger concentration has a score at least as large.
\<close>

theorem risk_score_mono_concentration:
  assumes "0 < totalAssets p" and "0 < totalAssets q"
    and "positionRatio p = positionRatio q" and "currentPnlPct p = currentPnlPct q"
    and "concentration p \<le> concentration q"
  shows "targetScore (Some p) \<le> targetScore (Some q)"
  using assms by (simp add: targetScore_def calcMetrics_Some)

theorem risk_score_mono_concentration_witness:
  "0 < totalAssets spread \<and> 0 < totalAssets scenario
   \<and> positionRatio spread = positionRatio scenario
   \<and> currentPnlPct spread = currentPnlPct scenario
   \<and> concentration spread = 25 \<and> concentration scenario = 50
   \<and> targetScore (Some spread) \<le> targetScore (Some scenario)"
proof -
  have a: "0 < totalAssets spread" and b: "0 < totalAssets scenario"
    by (simp_all add: spread_def scenario_def)
  have c: "positionRatio spread = positionRatio scenario"
    and d: "currentPnlPct spread = currentPnlPct scenario"
    by (simp_all add: spread_def scenario_def risk_defs)
  have e: "concentration spread = 25" and f: "concentration scenario = 50"
    by (simp_all add: spread_def scenario_def risk_defs)
  from e f have g: "concentration spread \<le> concentration scenario" by simp
  from risk_score_mono_concentration [OF a b c d g] a b c d e f show ?thesis by simp
qed

text \<open>
  C10. With positive total assets the score lies between 20 and 85: it is the base plus
  the three increments, none negative and together at most 65, so the cap of 100 leaves
  it as it is.
\<close>

theorem risk_score_bounds:
  assumes "0 < totalAssets p"
  shows "20 \<le> targetScore (Some p) \<and> targetScore (Some p) \<le> 85
       \<and> targetScore (Some p) = 20
           + (if positionRatio p > 85 then 20 else if positionRatio p > 70 then 10 else 0)
           + (if concentration p > 50 then 25 else if concentration p > 30 then 10 else 0)
           + (if currentPnlPct p < -5 then 20 else if currentPnlPct p < -3 then 10 else 0)"
  using assms by (simp add: targetScore_def calcMetrics_Some)

theorem risk_score_bounds_witness:
  "0 < totalAssets spread \<and> 20 \<le> targetScore (Some spread)
   \<and> targetScore (Some spread) \<le> 85"
proof -
  have a: "0 < totalAssets spread" by (simp add: spread_def scenario_def)
  from risk_score_bounds [OF a] a show ?thesis by simp
qed

section \<open>Rounding to binary64\<close>

text \<open>
  The exponent found by \<open>expo\<close> brackets its argument, rounding is within half a unit in
  the last place, and integers and half-integers below \<open>2 ^ 52\<close> are binary64 values. The
  quotient of two integers of moderate size therefore rounds to the same integer before
  and after its rounding to binary64.
\<close>

lemma pow2_powr: "pow2 e = 2 powr (real_of_int e)"
proof (cases "0 \<le> e")
  case True
  then obtain n where "e = int n" by (auto elim: nonneg_int_cases)
  then show ?thesis by (simp add: pow2_def powr_realpow)
next
  case False
  define n where "n = nat (- e)"
  from False have e: "e = - int n" by (simp add: n_def)
  from False show ?thesis
    by (simp add: pow2_def e powr_minus powr_realpow inverse_eq_divide)
qed

lemma pow2_pos: "0 < pow2 e"
  by (simp add: pow2_powr)

lemma pow2_add: "pow2 (a + b) = pow2 a * pow2 b"
  by (simp add: pow2_powr powr_add)

lemma pow2_mono: "a \<le> b \<Longrightarrow> pow2 a \<le> pow2 b"
  by (simp add: pow2_powr)

lemma pow2_less_iff: "pow2 a < pow2 b \<longleftrightarrow> a < b"
  by (simp add: pow2_powr)

lemma pow2_nat: "pow2 (int n) = 2 ^ n"
  by (simp add: pow2_def)

lemma expo_bounds:
  assumes "0 < x"
  shows "pow2 (expo x) \<le> x \<and> x < pow2 (expo x + 1)"
proof (cases "1 \<le> x")
  case True
  define f where "f = \<lfloor>x\<rfloor>"
  from True have f: "0 < f" by (simp add: f_def)
  from bitlen_bounds [OF f] have b: "2 ^ nat (bitlen f - 1) \<le> f" "f < 2 ^ nat (bitlen f)" by auto
  have bl: "1 \<le> bitlen f"
  proof (rule ccontr)
    assume "\<not> 1 \<le> bitlen f"
    then have "nat (bitlen f) = 0" by simp
    with b(2) f show False by simp
  qed
  have e: "expo x = bitlen f - 1" using True by (simp add: expo_def f_def)
  have 1: "pow2 (expo x) \<le> x"
  proof -
    have "pow2 (expo x) = 2 ^ nat (bitlen f - 1)" using bl by (simp add: e pow2_def)
    also have "\<dots> \<le> of_int f" using b(1) by (metis of_int_le_iff of_int_numeral of_int_power)
    also have "\<dots> \<le> x" by (simp add: f_def)
    finally show ?thesis .
  qed
  have 2: "x < pow2 (expo x + 1)"
  proof -
    have "f + 1 \<le> 2 ^ nat (bitlen f)" using b(2) by simp
    then have "of_int (f + 1) \<le> (2::real) ^ nat (bitlen f)"
      by (metis of_int_le_iff of_int_numeral of_int_power)
    moreover have "x < of_int (f + 1)" by (simp add: f_def)
    moreover have "pow2 (expo x + 1) = 2 ^ nat (bitlen f)" using bl by (simp add: e pow2_def)
    ultimately show ?thesis by simp
  qed
  from 1 2 show ?thesis ..
next
  case False
  define m where "m = \<lceil>1 / x\<rceil>"
  define k where "k = bitlen (m - 1)"
  from False assms have inv: "1 < 1 / x" by simp
  then have m2: "2 \<le> m" unfolding m_def by (simp add: le_ceiling_iff)
  then have m1: "0 < m - 1" by simp
  from bitlen_bounds [OF m1] have b: "2 ^ nat (k - 1) \<le> m - 1" "m - 1 < 2 ^ nat k"
    by (auto simp: k_def)
  have k1: "1 \<le> k"
  proof (rule ccontr)
    assume "\<not> 1 \<le> k"
    then have "nat k = 0" by simp
    with b(2) m1 show False by simp
  qed
  have e: "expo x = - k" using False by (simp add: expo_def k_def m_def)
  have up: "1 / x \<le> 2 ^ nat k"
  proof -
    have "1 / x \<le> of_int m" by (simp add: m_def)
    also have "m \<le> 2 ^ nat k" using b(2) by simp
    then have "of_int m \<le> (2::real) ^ nat k"
      by (metis of_int_le_iff of_int_numeral of_int_power)
    finally show ?thesis .
  qed
  have lo: "2 ^ nat (k - 1) < 1 / x"
  proof -
    have "(2::real) ^ nat (k - 1) \<le> of_int (m - 1)" using b(1)
      by (metis of_int_le_iff of_int_numeral of_int_power)
    also have "of_int (m - 1) < 1 / x" unfolding m_def by linarith
    finally show ?thesis .
  qed
  have 1: "pow2 (expo x) \<le> x"
  proof -
    have "pow2 (expo x) = 1 / 2 ^ nat k" using k1 by (simp add: e pow2_def)
    moreover from up assms have "1 / 2 ^ nat k \<le> x"
      by (simp add: field_simps)
    ultimately show ?thesis by simp
  qed
  have 2: "x < pow2 (expo x + 1)"
  proof -
    have "pow2 (expo x + 1) = 1 / 2 ^ nat (k - 1)"
    proof (cases "k = 1")
      case True
      then show ?thesis by (simp add: e pow2_def)
    next
      case False
      with k1 have "2 \<le> k" by simp
      then have "nat (- (- k + 1)) = nat (k - 1)" "\<not> 0 \<le> - k + 1" by simp_all
      then show ?thesis by (simp add: e pow2_def)
    qed
    moreover from lo assms have "x < 1 / 2 ^ nat (k - 1)"
      by (simp add: field_simps)
    ultimately show ?thesis by simp
  qed
  from 1 2 show ?thesis ..
qed

lemma rne_of_int: "rne (of_int z) = z"
  by (simp add: rne_def)

lemma rne_error: "\<bar>of_int (rne m) - m\<bar> \<le> 1 / 2"
  unfolding rne_def Let_def by (auto; linarith)

lemma binary64_normal:
  assumes "0 < x" and "- 1022 \<le> expo x" and "expo x \<le> 1022"
  shows "\<exists>y. binary64 x = Num y
           \<and> y = of_int (rne (x / pow2 (expo x - 52))) * pow2 (expo x - 52)
           \<and> \<bar>y - x\<bar> \<le> x / 2 ^ 53"
proof -
  define e where "e = expo x"
  define u where "u = pow2 (e - 52)"
  define y where "y = of_int (rne (x / u)) * u"
  from expo_bounds [OF assms(1)] have b: "pow2 e \<le> x" "x < pow2 (e + 1)"
    by (simp_all add: e_def)
  have u: "0 < u" by (simp add: u_def pow2_pos)
  have "y - x = (of_int (rne (x / u)) - x / u) * u"
    using u by (simp add: y_def field_simps)
  then have "\<bar>y - x\<bar> = \<bar>of_int (rne (x / u)) - x / u\<bar> * u"
    using u by (simp add: abs_mult)
  also have "\<dots> \<le> (1 / 2) * u"
    using rne_error [of "x / u"] u by (intro mult_right_mono) simp_all
  finally have err: "\<bar>y - x\<bar> \<le> u / 2" by simp
  have u53: "u / 2 = pow2 e / 2 ^ 53"
  proof -
    have "pow2 e = pow2 (e - 52) * pow2 52" using pow2_add [of "e - 52" 52] by simp
    moreover have "pow2 52 = 2 ^ 52" by (simp add: pow2_def)
    ultimately show ?thesis by (simp add: u_def)
  qed
  from b(1) have "pow2 e / 2 ^ 53 \<le> x / 2 ^ 53" by (simp add: divide_right_mono)
  with err u53 have bound: "\<bar>y - x\<bar> \<le> x / 2 ^ 53" by simp
  have fin: "\<bar>y\<bar> < pow2 1024"
  proof -
    have "\<bar>y\<bar> \<le> x + x / 2 ^ 53" using bound assms(1) by linarith
    also have "\<dots> \<le> 2 * x" using assms(1) by (simp add: field_simps)
    also have "\<dots> < 2 * pow2 (e + 1)" using b(2) by simp
    also have "\<dots> = pow2 (e + 2)"
    proof -
      have "pow2 1 = 2" by (simp add: pow2_def)
      with pow2_add [of "e + 1" 1] show ?thesis by (simp add: add.commute)
    qed
    also have "\<dots> \<le> pow2 1024" using assms(3) by (intro pow2_mono) (simp add: e_def)
    finally show ?thesis .
  qed
  have "binary64 x = Num y"
    using assms fin unfolding binary64_def Let_def y_def u_def e_def by simp
  with bound show ?thesis by (simp add: y_def u_def e_def)
qed

lemma binary64_at:
  assumes "0 < x" and "pow2 e \<le> x" and "x < pow2 (e + 1)" and "- 1022 \<le> e" and "e \<le> 1022"
  shows "binary64 x = Num (of_int (rne (x / pow2 (e - 52))) * pow2 (e - 52))"
proof -
  from expo_bounds [OF assms(1)] have b: "pow2 (expo x) \<le> x" "x < pow2 (expo x + 1)" by auto
  from b(1) assms(3) have "pow2 (expo x) < pow2 (e + 1)" by simp
  moreover from assms(2) b(2) have "pow2 e < pow2 (expo x + 1)" by simp
  ultimately have e: "expo x = e" by (simp add: pow2_less_iff)
  from binary64_normal [OF assms(1)] e assms(4,5) show ?thesis by auto
qed

lemma binary64_half_int:
  assumes "0 < j" and "j < 2 ^ 53"
  shows "binary64 (of_int j / 2) = Num (of_int j / 2)"
proof -
  define x :: real where "x = of_int j / 2"
  define e where "e = expo x"
  have x: "0 < x" "1 / 2 \<le> x" "x < 2 ^ 52"
  proof -
    from assms(1) show "0 < x" by (simp add: x_def)
    from assms(1) have "1 \<le> j" by simp
    then have "1 \<le> (of_int j :: real)" by simp
    then show "1 / 2 \<le> x" by (simp add: x_def)
    from assms(2) have "(of_int j :: real) < 2 ^ 53"
      by (metis of_int_less_iff of_int_numeral of_int_power)
    then show "x < 2 ^ 52" by (simp add: x_def)
  qed
  from expo_bounds [OF x(1)] have b: "pow2 e \<le> x" "x < pow2 (e + 1)" by (simp_all add: e_def)
  have hi: "e \<le> 51"
  proof -
    from b(1) x(3) have "pow2 e < pow2 52" by (simp add: pow2_def)
    then show ?thesis by (simp add: pow2_less_iff)
  qed
  have lo: "- 1 \<le> e"
  proof -
    from b(2) x(2) have "pow2 (- 1) < pow2 (e + 1)" by (simp add: pow2_def)
    then show ?thesis by (simp add: pow2_less_iff)
  qed
  define u where "u = pow2 (e - 52)"
  have u: "0 < u" by (simp add: u_def pow2_pos)
  have "pow2 (51 - e) * pow2 (e - 52) = pow2 (- 1)" using pow2_add [of "51 - e" "e - 52"] by simp
  moreover have "pow2 (- 1) = 1 / 2" by (simp add: pow2_def)
  ultimately have inv: "pow2 (51 - e) * u = 1 / 2" by (simp add: u_def)
  have "x / u = of_int j * pow2 (51 - e)"
  proof -
    have "of_int j * pow2 (51 - e) * u = x" using inv by (simp add: x_def)
    with u show ?thesis by (simp add: field_simps)
  qed
  also have "pow2 (51 - e) = 2 ^ nat (51 - e)" using hi by (simp add: pow2_def)
  also have "of_int j * (2::real) ^ nat (51 - e) = of_int (j * 2 ^ nat (51 - e))" by simp
  finally have m: "x / u = of_int (j * 2 ^ nat (51 - e))" .
  have y: "of_int (rne (x / u)) * u = x"
    unfolding m rne_of_int using m u by (simp add: field_simps)
  have fin: "\<not> pow2 1024 \<le> \<bar>x\<bar>" using x by (simp add: pow2_def) 
  have "max (expo \<bar>x\<bar>) (- 1022) = e" using x(1) lo by (simp add: e_def)
  then have "binary64 x = Num x"
    using x(1) y fin unfolding binary64_def Let_def u_def by simp
  then show ?thesis by (simp add: x_def)
qed

lemma binary64_int:
  assumes "0 \<le> k" and "k < 2 ^ 52"
  shows "binary64 (of_int k) = Num (of_int k)"
proof (cases "k = 0")
  case True
  then show ?thesis by (simp add: binary64_def)
next
  case False
  with assms have "0 < 2 * k" "2 * k < 2 ^ 53" by simp_all
  from binary64_half_int [OF this] show ?thesis by simp
qed

lemma expo_range:
  assumes "0 < x" and "pow2 a \<le> x" and "x < pow2 b"
  shows "a \<le> expo x \<and> expo x < b"
proof -
  from expo_bounds [OF assms(1)] have e: "pow2 (expo x) \<le> x" "x < pow2 (expo x + 1)" by auto
  from e(1) assms(3) have "pow2 (expo x) < pow2 b" by simp
  then have 1: "expo x < b" by (simp add: pow2_less_iff)
  from assms(2) e(2) have "pow2 a < pow2 (expo x + 1)" by simp
  then have "a < expo x + 1" by (simp add: pow2_less_iff)
  with 1 show ?thesis by simp
qed

lemma half_quotient_le: "0 < N \<Longrightarrow> a \<le> b * N \<Longrightarrow> a / (2 * N) \<le> b / 2" for N :: real
  by (simp add: field_simps)

lemma half_quotient_ge: "0 < N \<Longrightarrow> b * N \<le> a \<Longrightarrow> b / 2 \<le> a / (2 * N)" for N :: real
  by (simp add: field_simps)

lemma round_quotient:
  assumes "0 \<le> S" and "S < 2 ^ 39" and "0 < n" and "n < 2 ^ 32"
  shows "Math_round (js_div (Num (of_int S)) (Num (of_int n)))
         = Num (of_int (round (real_of_int S / real_of_int n)))"
proof (cases "S = 0")
  case True
  then show ?thesis using assms(3) by (simp add: binary64_def round_def)
next
  case False
  define q :: real where "q = of_int S / of_int n"
  define k where "k = round q"
  from False assms have S: "0 < S" by simp
  have nr: "0 < (of_int n :: real)" "(of_int n :: real) < 2 ^ 32"
    using assms(3,4) by (simp, metis of_int_less_iff of_int_numeral of_int_power)
  have Sr: "1 \<le> (of_int S :: real)" "(of_int S :: real) < 2 ^ 39"
    using S assms(2) by (simp, metis of_int_less_iff of_int_numeral of_int_power)
  have q0: "0 < q" using S assms(3) by (simp add: q_def)
  have qlo: "pow2 (- 32) \<le> q"
  proof -
    have "1 / 2 ^ 32 \<le> 1 / (of_int n :: real)" using nr by (simp add: field_simps)
    also have "\<dots> \<le> q" using Sr(1) nr(1) by (simp add: q_def divide_right_mono)
    finally show ?thesis by (simp add: pow2_def)
  qed
  have qhi: "q < pow2 39"
  proof -
    have "1 \<le> (of_int n :: real)" using assms(3) by simp
    then have "q \<le> of_int S" using Sr(1) by (simp add: q_def field_simps mult_le_cancel_left1)
    with Sr(2) show ?thesis by (simp add: pow2_def)
  qed
  from expo_range [OF q0 qlo qhi] have "- 1022 \<le> expo q" "expo q \<le> 1022" by simp_all
  from binary64_normal [OF q0 this]
  obtain y where y: "binary64 q = Num y" and err: "\<bar>y - q\<bar> \<le> q / 2 ^ 53" by blast
  have small: "q / 2 ^ 53 < 1 / (2 * of_int n)"
  proof -
    have "2 * of_int S < (2::real) ^ 53" using Sr(2) by simp
    then have "q * (2 * of_int n) < 2 ^ 53" using nr(1) by (simp add: q_def)
    then show ?thesis using nr(1) by (simp add: field_simps)
  qed
  have kq: "of_int k - 1 / 2 \<le> q" "q < of_int k + 1 / 2"
    unfolding k_def round_def by linarith+
  have up_int: "2 * S < (2 * k + 1) * n"
  proof -
    from kq(2) nr(1) have "q * of_int n < (of_int k + 1 / 2) * of_int n"
      by (simp add: mult_strict_right_mono)
    then have "2 * real_of_int S < real_of_int ((2 * k + 1) * n)"
      using nr(1) by (simp add: q_def field_simps)
    then show ?thesis by (metis of_int_less_iff of_int_mult of_int_numeral)
  qed
  have lo_int: "(2 * k - 1) * n \<le> 2 * S"
  proof -
    from kq(1) nr(1) have "(of_int k - 1 / 2) * of_int n \<le> q * of_int n"
      by (simp add: mult_right_mono)
    then have "real_of_int ((2 * k - 1) * n) \<le> 2 * real_of_int S"
      using nr(1) by (simp add: q_def field_simps)
    then show ?thesis by (metis of_int_le_iff of_int_mult of_int_numeral)
  qed
  have upper: "y < of_int k + 1 / 2"
  proof -
    from up_int have "2 * S + 1 \<le> (2 * k + 1) * n" by simp
    then have "real_of_int (2 * S + 1) \<le> real_of_int ((2 * k + 1) * n)" by (simp only: of_int_le_iff)
    then have "2 * of_int S + 1 \<le> (2 * of_int k + 1) * real_of_int n" by simp
    from half_quotient_le [OF nr(1) this]
    have "(2 * of_int S + 1) / (2 * real_of_int n) \<le> (2 * of_int k + 1) / 2" .
    moreover have "q + 1 / (2 * of_int n) = (2 * of_int S + 1) / (2 * real_of_int n)"
      using nr(1) by (simp add: q_def add_divide_distrib)
    ultimately have "q + 1 / (2 * of_int n) \<le> of_int k + 1 / 2" by (simp add: add_divide_distrib)
    with err small show ?thesis by linarith
  qed
  have lower: "of_int k - 1 / 2 \<le> y"
  proof (cases "(2 * k - 1) * n = 2 * S")
    case True
    then have "real_of_int ((2 * k - 1) * n) = real_of_int (2 * S)" by simp
    then have qh: "q = of_int (2 * k - 1) / 2" using nr(1) by (simp add: q_def field_simps)
    from q0 qh have j0: "0 < 2 * k - 1" by simp
    have "of_int (2 * k - 1) / 2 < (2::real) ^ 39" using qhi qh by (simp add: pow2_def)
    then have "real_of_int (2 * k - 1) < 2 ^ 53" by simp
    then have j1: "2 * k - 1 < 2 ^ 53" by (metis of_int_less_iff of_int_numeral of_int_power)
    from binary64_half_int [OF j0 j1] y qh have "y = q" by simp
    with kq(1) show ?thesis by simp
  next
    case False
    with lo_int have "(2 * k - 1) * n \<le> 2 * S - 1" by simp
    then have "real_of_int ((2 * k - 1) * n) \<le> real_of_int (2 * S - 1)" by (simp only: of_int_le_iff)
    then have "(2 * of_int k - 1) * real_of_int n \<le> 2 * of_int S - 1" by simp
    from half_quotient_ge [OF nr(1) this]
    have "(2 * of_int k - 1) / 2 \<le> (2 * of_int S - 1) / (2 * real_of_int n)" .
    moreover have "q - 1 / (2 * of_int n) = (2 * of_int S - 1) / (2 * real_of_int n)"
      using nr(1) by (simp add: q_def diff_divide_distrib)
    ultimately have "of_int k - 1 / 2 \<le> q - 1 / (2 * of_int n)" by (simp add: diff_divide_distrib)
    with err small show ?thesis by linarith
  qed
  from upper lower have "\<lfloor>y + 1 / 2\<rfloor> = k" by linarith
  moreover have "js_div (Num (of_int S)) (Num (of_int n)) = Num y"
    using y assms(3) by (simp add: q_def)
  ultimately show ?thesis by (simp add: k_def q_def)
qed

lemma sum_ints:
  assumes "\<forall>k \<in> set ks. 0 \<le> k \<and> k \<le> 100" and "0 \<le> a"
    and "a + 100 * int (length ks) < 2 ^ 52"
  shows "foldl js_add (Num (of_int a)) (map (\<lambda>k. Num (of_int k)) ks)
         = Num (of_int (a + sum_list ks))"
  using assms
proof (induction ks arbitrary: a)
  case Nil
  then show ?case by simp
next
  case (Cons k ks)
  from Cons.prems have k: "0 \<le> k" "k \<le> 100" by simp_all
  from Cons.prems k have ak: "0 \<le> a + k" "a + k < 2 ^ 52" by simp_all
  have step: "js_add (Num (of_int a)) (Num (of_int k)) = Num (of_int (a + k))"
    using binary64_int [OF ak] by simp
  have "a + k + 100 * int (length ks) < 2 ^ 52" using Cons.prems(3) k by simp
  with Cons.IH [of "a + k"] Cons.prems(1) ak(1)
  have "foldl js_add (Num (of_int (a + k))) (map (\<lambda>k. Num (of_int k)) ks)
        = Num (of_int (a + k + sum_list ks))" by simp
  with step show ?case by (simp add: add.assoc)
qed

lemma foldl_map_conv: "foldl (\<lambda>s v. f s (g v)) a xs = foldl f a (map g xs)"
  by (induction xs arbitrary: a) simp_all

lemma mean_of_integers:
  assumes "map c vals = map of_int ks" and "\<forall>k \<in> set ks. 0 \<le> k \<and> k \<le> 100"
    and "vals \<noteq> []" and "length vals < 2 ^ 32"
  shows "Math_round (js_div (foldl (\<lambda>s v. js_add s (binary64 (c v))) (Num 0) vals)
                            (Num (real (length vals))))
         = Num (of_int (round (sum_list (map c vals) / real (length vals))))"
proof -
  have len: "length ks = length vals" using assms(1) by (metis length_map)
  have conv: "map (\<lambda>v. binary64 (c v)) vals = map (\<lambda>k. Num (of_int k)) ks"
  proof -
    have "map (\<lambda>v. binary64 (c v)) vals = map binary64 (map c vals)" by simp
    also have "\<dots> = map (\<lambda>k. binary64 (of_int k)) ks" by (simp add: assms(1))
    also have "\<dots> = map (\<lambda>k. Num (of_int k)) ks"
    proof (rule map_cong [OF refl])
      fix k assume "k \<in> set ks"
      with assms(2) have "0 \<le> k" "k < 2 ^ 52" by auto
      then show "binary64 (of_int k) = Num (of_int k)" by (rule binary64_int)
    qed
    finally show ?thesis .
  qed
  have n32: "int (length vals) < 2 ^ 32" using assms(4) by (metis of_nat_less_iff of_nat_numeral of_nat_power)
  have le: "sum_list ks \<le> 100 * int (length ks)" and ge: "0 \<le> sum_list ks"
    using assms(2) by (induction ks) auto
  have "0 + 100 * int (length ks) < 2 ^ 52" using n32 len by simp
  from sum_ints [OF assms(2) _ this]
  have sum: "foldl js_add (Num 0) (map (\<lambda>k. Num (of_int k)) ks) = Num (of_int (sum_list ks))"
    by simp
  have S39: "sum_list ks < 2 ^ 39" using le n32 len by simp
  have n0: "0 < int (length vals)" using assms(3) by simp
  have fold: "foldl (\<lambda>s v. js_add s (binary64 (c v))) (Num 0) vals = Num (of_int (sum_list ks))"
    using foldl_map_conv [of js_add "\<lambda>v. binary64 (c v)" "Num 0" vals] conv sum by simp
  have rq: "Math_round (js_div (Num (of_int (sum_list ks))) (Num (real (length vals))))
        = Num (of_int (round (real_of_int (sum_list ks) / real (length vals))))"
    using round_quotient [OF ge S39 n0 n32] by (simp only: of_int_of_nat_eq)
  have eqsum: "sum_list (map c vals) = real_of_int (sum_list ks)"
    unfolding assms(1) by (induction ks) simp_all
  show ?thesis unfolding fold eqsum by (rule rq)
qed

section \<open>Aggregation\<close>

lemma length_filter_signal:
  "length (filter (\<lambda>v. signal v = s) vals) = count_list (map signal vals) s"
  by (induction vals) auto

lemma signal_partition:
  "count_list (map signal vals) Bullish + count_list (map signal vals) Bearish
     + count_list (map signal vals) Neutral = length vals"
proof (induction vals)
  case Nil
  show ?case by simp
next
  case (Cons v vs)
  then show ?case by (cases "signal v") simp_all
qed

lemma calcOverall_nonempty:
  assumes "Object_values sigs \<noteq> []"
  shows "calcOverall sigs =
     \<lparr>ov_signal =
        (if int (count_list (map signal (Object_values sigs)) Bullish)
              \<ge> \<lceil>real (length (Object_values sigs)) / 2\<rceil> then Bullish
         else if int (count_list (map signal (Object_values sigs)) Bearish)
              \<ge> \<lceil>real (length (Object_values sigs)) / 2\<rceil> then Bearish
         else Neutral),
      ov_confidence =
        Math_round
          (js_div (foldl (\<lambda>s v. js_add s (binary64 (confidence v))) (Num 0) (Object_values sigs))
                  (Num (real (length (Object_values sigs))))),
      ov_bullish = int (count_list (map signal (Object_values sigs)) Bullish),
      ov_bearish = int (count_list (map signal (Object_values sigs)) Bearish),
      ov_neutral = int (length (Object_values sigs))
          - int (count_list (map signal (Object_values sigs)) Bullish)
          - int (count_list (map signal (Object_values sigs)) Bearish)\<rparr>"
  using assms
  by (simp add: calcOverall_def Let_def length_filter_signal Math_ceil_def)

lemma calcOverall_empty:
  "Object_values sigs = [] \<Longrightarrow>
   calcOverall sigs =
     \<lparr>ov_signal = Neutral, ov_confidence = Num 0, ov_bullish = 0, ov_bearish = 0,
      ov_neutral = 0\<rparr>"
  by (simp add: calcOverall_def)

lemma ceil_half_le: "\<lceil>real n / 2\<rceil> \<le> int b \<longleftrightarrow> n \<le> 2 * b"
proof -
  have "\<lceil>real n / 2\<rceil> \<le> int b \<longleftrightarrow> real n / 2 \<le> real b"
    by (simp add: ceiling_le_iff)
  also have "\<dots> \<longleftrightarrow> n \<le> 2 * b"
    by (metis (no_types) of_nat_le_iff of_nat_mult of_nat_numeral pos_divide_le_eq zero_less_numeral mult.commute)
  finally show ?thesis .
qed

lemma round_near: "\<bar>real_of_int (round x) - x\<bar> \<le> 1 / 2" for x :: real
  unfolding round_def by linarith

lemma pow2_values:
  "pow2 5 = 32" "pow2 6 = 64" "pow2 7 = 128" "pow2 8 = 256"
  "pow2 (- 47) = 1 / 2 ^ 47" "pow2 (- 46) = 1 / 2 ^ 46" "pow2 (- 45) = 1 / 2 ^ 45"
  by (simp_all add: pow2_def)

lemma decimals_rounding:
  "binary64 (348 / 5) = Num (2448832297382707 / 35184372088832)"
  "binary64 (843 / 10) = Num (5932085134177075 / 70368744177664)"
  "binary64 (303 / 5) = Num (8528691794332877 / 140737488355328)"
  "binary64 (2448832297382707 / 35184372088832) = Num (2448832297382707 / 35184372088832)"
  "binary64 (10829749728942489 / 70368744177664) = Num (1353718716117811 / 8796093022208)"
  "binary64 (30188191252217853 / 140737488355328) = Num (7547047813054463 / 35184372088832)"
  "binary64 (7547047813054463 / 105553116266496) = Num (5031365208702975 / 70368744177664)"
  using binary64_at [of "348 / 5" 6] binary64_at [of "843 / 10" 6] binary64_at [of "303 / 5" 5]
    binary64_at [of "2448832297382707 / 35184372088832" 6]
    binary64_at [of "10829749728942489 / 70368744177664" 7]
    binary64_at [of "30188191252217853 / 140737488355328" 7]
    binary64_at [of "7547047813054463 / 105553116266496" 6]
  by (simp_all add: pow2_values rne_def)

text \<open>
  C1, as stated, fails. One bullish and one bearish verdict, a tie with no absolute
  majority, aggregate to bullish: half the votes already meet ceil(n / 2), and bullish is
  tested first. And the overall confidence is not always the rounded mean, because the
  sum is rounded to binary64 at each step before it is divided: for the two binary64
  confidences \<open>70.5 - 2 ^ -46\<close> and 70.5, whose mean is below 70.5 and rounds to 70, it is
  71; for confidences written 69.6, 84.3 and 60.6, whose mean 71.5 rounds to 72, it is 71.
\<close>

theorem calcOverall_tie_counterexample:
  "length (Object_values tie_1_1) = 2
   \<and> count_list (map signal (Object_values tie_1_1)) Bullish = 1
   \<and> count_list (map signal (Object_values tie_1_1)) Bearish = 1
   \<and> ov_signal (calcOverall tie_1_1) = Bullish
   \<and> map (\<lambda>v. binary64 (confidence v)) (Object_values near_half)
       = map (\<lambda>v. Num (confidence v)) (Object_values near_half)
   \<and> sum_list (map confidence (Object_values near_half)) / 2 = 141 / 2 - 1 / 2 ^ 47
   \<and> round (sum_list (map confidence (Object_values near_half)) / 2) = 70
   \<and> ov_confidence (calcOverall near_half) = Num 71
   \<and> sum_list (map confidence (Object_values decimals)) / 3 = 143 / 2
   \<and> round (sum_list (map confidence (Object_values decimals)) / 3) = 72
   \<and> ov_confidence (calcOverall decimals) = Num 71"
proof -
  have tie: "length (Object_values tie_1_1) = 2
   \<and> count_list (map signal (Object_values tie_1_1)) Bullish = 1
   \<and> count_list (map signal (Object_values tie_1_1)) Bearish = 1
   \<and> ov_signal (calcOverall tie_1_1) = Bullish"
    by (simp add: tie_1_1_def verdict_def Object_values_def calcOverall_def Let_def Math_ceil_def)
  have lo: "binary64 (4960996464525311 / 70368744177664) = Num (4960996464525311 / 70368744177664)"
    using binary64_at [of "4960996464525311 / 70368744177664" 6] by (simp add: pow2_values rne_def)
  have hi: "binary64 (141 / 2) = Num (141 / 2)"
    using binary64_half_int [of 141] by simp
  have add: "binary64 (9921992929050623 / 70368744177664) = Num 141"
    using binary64_at [of "9921992929050623 / 70368744177664" 7] by (simp add: pow2_values rne_def)
  have conf: "ov_confidence (calcOverall near_half) = Num 71"
    by (simp add: near_half_def verdict_def Object_values_def calcOverall_def Let_def lo hi add)
  have inputs: "map (\<lambda>v. binary64 (confidence v)) (Object_values near_half)
       = map (\<lambda>v. Num (confidence v)) (Object_values near_half)"
    by (simp add: near_half_def verdict_def Object_values_def lo hi)
  have mean: "sum_list (map confidence (Object_values near_half)) / 2 = 141 / 2 - 1 / 2 ^ 47
   \<and> round (sum_list (map confidence (Object_values near_half)) / 2) = 70"
    by (simp add: near_half_def verdict_def Object_values_def round_def)
  have dec: "sum_list (map confidence (Object_values decimals)) / 3 = 143 / 2
   \<and> round (sum_list (map confidence (Object_values decimals)) / 3) = 72
   \<and> ov_confidence (calcOverall decimals) = Num 71"
    by (simp add: decimals_def verdict_def Object_values_def calcOverall_def Let_def
        decimals_rounding round_def)
  from tie inputs mean conf dec show ?thesis by simp
qed

text \<open>
  C1, amended. For a non-empty set of verdicts the overall signal is bullish when the
  bullish votes reach ceil(n / 2), that is when they are at least half of the votes,
  otherwise bearish when the bearish votes do, otherwise neutral. The empty set gives
  neutral with confidence 0. Five verdicts split 3/1/1 give bullish, five split 2/2/1 give
  neutral. When every confidence is an integer between 0 and 100 (and the array is of a
  length an array can have), the overall confidence is the arithmetic mean of the
  confidences rounded to the nearest integer, a tie going up.
\<close>

theorem calcOverall_majority_mean:
  assumes "vals = Object_values sigs" and "n = length vals"
    and "b = count_list (map signal vals) Bullish"
    and "s = count_list (map signal vals) Bearish"
    and "mean = sum_list (map confidence vals) / real n"
  shows "(n \<noteq> 0 \<longrightarrow>
            ov_signal (calcOverall sigs) =
              (if int b \<ge> \<lceil>real n / 2\<rceil> then Bullish
               else if int s \<ge> \<lceil>real n / 2\<rceil> then Bearish else Neutral))
       \<and> (n \<noteq> 0 \<and> n \<le> 2 * b \<longrightarrow> ov_signal (calcOverall sigs) = Bullish)
       \<and> (2 * b < n \<and> n \<le> 2 * s \<longrightarrow> ov_signal (calcOverall sigs) = Bearish)
       \<and> (2 * b < n \<and> 2 * s < n \<longrightarrow> ov_signal (calcOverall sigs) = Neutral)
       \<and> (n = 0 \<longrightarrow>
            ov_signal (calcOverall sigs) = Neutral
          \<and> ov_confidence (calcOverall sigs) = Num 0)
       \<and> (n = 5 \<and> b = 3 \<and> s = 1 \<longrightarrow> ov_signal (calcOverall sigs) = Bullish)
       \<and> (n = 5 \<and> b = 2 \<and> s = 2 \<longrightarrow> ov_signal (calcOverall sigs) = Neutral)
       \<and> (n \<noteq> 0 \<and> n < 2 ^ 32 \<and> map confidence vals = map of_int ks
            \<and> (\<forall>k \<in> set ks. 0 \<le> k \<and> k \<le> 100) \<longrightarrow>
            ov_confidence (calcOverall sigs) = Num (of_int (round mean))
          \<and> \<bar>real_of_int (round mean) - mean\<bar> \<le> 1 / 2)"
proof -
  have rule: "ov_signal (calcOverall sigs) =
              (if n \<le> 2 * b then Bullish else if n \<le> 2 * s then Bearish else Neutral)"
    if "n \<noteq> 0"
    using that assms by (simp add: calcOverall_nonempty ceil_half_le)
  have c1: "ov_signal (calcOverall sigs) =
              (if int b \<ge> \<lceil>real n / 2\<rceil> then Bullish
               else if int s \<ge> \<lceil>real n / 2\<rceil> then Bearish else Neutral)" if "n \<noteq> 0"
    using rule [OF that] by (simp add: ceil_half_le)
  have empty: "ov_signal (calcOverall sigs) = Neutral
          \<and> ov_confidence (calcOverall sigs) = Num 0" if "n = 0"
    using that assms by (simp add: calcOverall_empty)
  have c2: "ov_signal (calcOverall sigs) = Bullish" if "n \<noteq> 0 \<and> n \<le> 2 * b"
    using rule that by simp
  have c3: "ov_signal (calcOverall sigs) = Bearish" if "2 * b < n \<and> n \<le> 2 * s"
    using rule [of] that by simp
  have c4: "ov_signal (calcOverall sigs) = Neutral" if "2 * b < n \<and> 2 * s < n"
  proof (cases "n = 0")
    case True
    with empty show ?thesis by simp
  next
    case False
    with rule that show ?thesis by simp
  qed
  have ex1: "ov_signal (calcOverall sigs) = Bullish" if "n = 5 \<and> b = 3 \<and> s = 1"
    using rule that by simp
  have ex2: "ov_signal (calcOverall sigs) = Neutral" if "n = 5 \<and> b = 2 \<and> s = 2"
    using rule that by simp
  have conf: "ov_confidence (calcOverall sigs) = Num (of_int (round mean))
          \<and> \<bar>real_of_int (round mean) - mean\<bar> \<le> 1 / 2"
    if h: "n \<noteq> 0 \<and> n < 2 ^ 32 \<and> map confidence vals = map of_int ks
            \<and> (\<forall>k \<in> set ks. 0 \<le> k \<and> k \<le> 100)"
  proof -
    from h assms have ne: "vals \<noteq> []" and len: "length vals < 2 ^ 32" by auto
    from h have m: "map confidence vals = map of_int ks"
      and r: "\<forall>k \<in> set ks. 0 \<le> k \<and> k \<le> 100" by auto
    from mean_of_integers [OF m r ne len] ne assms
    have "ov_confidence (calcOverall sigs) = Num (of_int (round mean))"
      by (simp add: calcOverall_nonempty)
    with round_near [of mean] show ?thesis by simp
  qed
  show ?thesis using c1 c2 c3 c4 empty ex1 ex2 conf by blast
qed

theorem calcOverall_majority_mean_witness:
  "ov_signal (calcOverall panel_3_1_1) = Bullish
   \<and> ov_confidence (calcOverall panel_3_1_1) = Num 64
   \<and> ov_signal (calcOverall panel_2_2_1) = Neutral
   \<and> ov_confidence (calcOverall panel_2_2_1) = Num 63
   \<and> ov_signal (calcOverall tie_1_1) = Bullish
   \<and> ov_confidence (calcOverall tie_1_1) = Num 70
   \<and> ov_signal (calcOverall []) = Neutral \<and> ov_confidence (calcOverall []) = Num 0"
  using calcOverall_majority_mean [OF refl refl refl refl refl, of panel_3_1_1 "[70, 80, 60, 50, 58]"]
    calcOverall_majority_mean [OF refl refl refl refl refl, of panel_2_2_1 "[70, 80, 60, 50, 55]"]
    calcOverall_majority_mean [OF refl refl refl refl refl, of tie_1_1 "[70, 70]"]
    calcOverall_majority_mean [OF refl refl refl refl refl, of "[]" "[]"]
  by (simp add: panel_3_1_1_def panel_2_2_1_def tie_1_1_def Object_values_def verdict_def round_def)

lemma calcOverall_counts:
  "ov_bullish (calcOverall sigs) = int (count_list (map signal (Object_values sigs)) Bullish)
   \<and> ov_bearish (calcOverall sigs) = int (count_list (map signal (Object_values sigs)) Bearish)
   \<and> ov_neutral (calcOverall sigs) = int (count_list (map signal (Object_values sigs)) Neutral)"
proof (cases "Object_values sigs = []")
  case True
  then show ?thesis by (simp add: calcOverall_empty)
next
  case False
  then show ?thesis using signal_partition [of "Object_values sigs"]
    by (simp add: calcOverall_nonempty)
qed

lemma update_fresh: "k \<notin> fst ` set al \<Longrightarrow> AList.update k v al = al @ [(k, v)]"
  by (induction al) auto

lemma collect_loop:
  assumes "distinct (map fst xs)" and "fst ` set acc \<inter> fst ` set xs = {}"
  shows "foldl (\<lambda>acc (agentName, signals).
              case map_of signals code of
                Some v \<Rightarrow> AList.update agentName v acc
              | None \<Rightarrow> acc) acc xs
         = acc @ List.map_filter (verdictOf code) xs"
  using assms
proof (induction xs arbitrary: acc)
  case Nil
  then show ?case by simp
next
  case (Cons x xs)
  obtain k sg where x: "x = (k, sg)" by (cases x)
  show ?case
  proof (cases "map_of sg code")
    case None
    with Cons x show ?thesis by (simp add: verdictOf_def)
  next
    case (Some v)
    from Cons.prems x have fresh: "k \<notin> fst ` set acc" by auto
    have disj: "fst ` set (acc @ [(k, v)]) \<inter> fst ` set xs = {}"
      using Cons.prems x by auto
    from Cons.prems have "distinct (map fst xs)" by simp
    from Cons.IH [OF this disj] Some x fresh show ?thesis
      by (simp add: verdictOf_def update_fresh)
  qed
qed

lemma collectSignals_distinct:
  "distinct (map fst m) \<Longrightarrow> collectSignals m code = List.map_filter (verdictOf code) m"
  using collect_loop [of m "[]" code] by (simp add: collectSignals_def Object_entries_def)

lemma count_verdicts:
  "count_list (map signal (map snd (List.map_filter (verdictOf code) m))) s
   = length (filter (\<lambda>e. map_option signal (map_of (snd e) code) = Some s) m)"
  by (induction m) (auto simp: verdictOf_def split: option.splits)

lemma length_verdicts:
  "length (List.map_filter (verdictOf code) m)
   = length (filter (\<lambda>e. map_of (snd e) code \<noteq> None) m)"
  by (induction m) (auto simp: verdictOf_def split: option.splits)

text \<open>
  C2. The three counts of the tally add up to the number of verdicts present. For the
  verdicts collected for one code from the agents' responses, that number is the number
  of agents that returned a verdict for the code, and each count is the number of those
  agents with that signal: an agent that returned nothing is in no count and not in the
  total.
\<close>

theorem calcOverall_tally:
  assumes "distinct (map fst agentSignalsMap)"
    and "ov = calcOverall (collectSignals agentSignalsMap code)"
  shows "ov_bullish (calcOverall sigs) + ov_bearish (calcOverall sigs) + ov_neutral (calcOverall sigs)
           = int (length (Object_values sigs))
       \<and> ov_bullish ov + ov_bearish ov + ov_neutral ov
           = int (length (filter (\<lambda>e. map_of (snd e) code \<noteq> None) agentSignalsMap))
       \<and> ov_bullish ov
           = int (length (filter (\<lambda>e. map_option signal (map_of (snd e) code) = Some Bullish)
                            agentSignalsMap))
       \<and> ov_bearish ov
           = int (length (filter (\<lambda>e. map_option signal (map_of (snd e) code) = Some Bearish)
                            agentSignalsMap))
       \<and> ov_neutral ov
           = int (length (filter (\<lambda>e. map_option signal (map_of (snd e) code) = Some Neutral)
                            agentSignalsMap))"
proof -
  have total: "ov_bullish (calcOverall xs) + ov_bearish (calcOverall xs) + ov_neutral (calcOverall xs)
           = int (length (Object_values xs))" for xs
    using calcOverall_counts [of xs] signal_partition [of "Object_values xs"] by simp
  have vals: "Object_values (collectSignals agentSignalsMap code)
      = map snd (List.map_filter (verdictOf code) agentSignalsMap)"
    using assms(1) by (simp add: collectSignals_distinct Object_values_def)
  have n: "length (Object_values (collectSignals agentSignalsMap code))
      = length (filter (\<lambda>e. map_of (snd e) code \<noteq> None) agentSignalsMap)"
    by (simp add: vals length_verdicts)
  have counts:
    "ov_bullish ov = int (length (filter (\<lambda>e. map_option signal (map_of (snd e) code) = Some Bullish)
                            agentSignalsMap))
     \<and> ov_bearish ov = int (length (filter (\<lambda>e. map_option signal (map_of (snd e) code) = Some Bearish)
                            agentSignalsMap))
     \<and> ov_neutral ov = int (length (filter (\<lambda>e. map_option signal (map_of (snd e) code) = Some Neutral)
                            agentSignalsMap))"
    using calcOverall_counts [of "collectSignals agentSignalsMap code"]
    by (simp only: assms(2) vals count_verdicts)
  have sum: "ov_bullish ov + ov_bearish ov + ov_neutral ov
           = int (length (filter (\<lambda>e. map_of (snd e) code \<noteq> None) agentSignalsMap))"
    using total [of "collectSignals agentSignalsMap code"] by (simp only: assms(2) n)
  from total [of sigs] sum counts show ?thesis by blast
qed

theorem calcOverall_tally_witness:
  "distinct (map fst agentSignalsMap_example)
   \<and> length agentSignalsMap_example = 3
   \<and> ov_bullish (calcOverall (collectSignals agentSignalsMap_example ''600519'')) = 1
   \<and> ov_bearish (calcOverall (collectSignals agentSignalsMap_example ''600519'')) = 1
   \<and> ov_neutral (calcOverall (collectSignals agentSignalsMap_example ''600519'')) = 0
   \<and> ov_bullish (calcOverall (collectSignals agentSignalsMap_example ''600519''))
     + ov_bearish (calcOverall (collectSignals agentSignalsMap_example ''600519''))
     + ov_neutral (calcOverall (collectSignals agentSignalsMap_example ''600519'')) = 2"
proof -
  have d: "distinct (map fst agentSignalsMap_example)"
    by (simp add: agentSignalsMap_example_def)
  from calcOverall_tally [OF d refl, where code = "''600519''" and sigs = "[]"] d show ?thesis
    by (simp add: agentSignalsMap_example_def verdict_def)
qed

section \<open>Holdings without a quote\<close>

text \<open>
  C3. The code breaks the claim. \<open>fetchAnalysis\<close> keeps a holding that the quote response
  does not resolve: its analysis is stored with price 0 and change 0 (and a P&L of -100
  percent), and nothing marks it. On the holdings and quotes of the second example it
  stores six analyses, four of them with price 0, where the earlier \<open>fetchAll\<close> stores the
  two that have a quote.
\<close>

theorem fetchAnalysis_defaults_unquoted:
  "fetchAnalysis [unquoted] otherQuote noSignals
     = SetAnalyses [\<lparr>a_code = ''600519'', a_name = ''Moutai'', price = 0, change = 0,
          pnlPct = -100, overallSignal = Neutral, overallConfidence = Num 0,
          agentSignals = []\<rparr>]
   \<and> (case fetchAnalysis HOLDINGS quotes_example noSignals of
         SetAnalyses rs \<Rightarrow> map (\<lambda>a. (a_code a, price a, change a)) rs
       | _ \<Rightarrow> [])
       = [(''300394'', 300, -2), (''002916'', 0, 0), (''600183'', 60, 3 / 2),
          (''300308'', 0, 0), (''002463'', 0, 0), (''300502'', 0, 0)]
   \<and> map_option (map (\<lambda>a. (sa_code a, sa_price a, sa_change a)))
         (fetchAll_analyses analysts_example quotes_example market_example)
       = Some [(''300394'', 300, -2), (''600183'', 60, 3 / 2)]"
proof -
  have one: "fetchAnalysis [unquoted] otherQuote noSignals
     = SetAnalyses [\<lparr>a_code = ''600519'', a_name = ''Moutai'', price = 0, change = 0,
          pnlPct = -100, overallSignal = Neutral, overallConfidence = Num 0,
          agentSignals = []\<rparr>]"
    by (simp add: fetchAnalysis_def analyseHolding_def unquoted_def otherQuote_def noSignals_def
        quoteOf_def collectSignals_def Object_entries_def calcOverall_def Object_values_def
        Let_def)
  have six: "(case fetchAnalysis HOLDINGS quotes_example noSignals of
         SetAnalyses rs \<Rightarrow> map (\<lambda>a. (a_code a, price a, change a)) rs
       | _ \<Rightarrow> [])
       = [(''300394'', 300, -2), (''002916'', 0, 0), (''600183'', 60, 3 / 2),
          (''300308'', 0, 0), (''002463'', 0, 0), (''300502'', 0, 0)]"
    by (simp add: fetchAnalysis_def analyseHolding_def HOLDINGS_def quotes_example_def
        noSignals_def quoteOf_def Let_def)
  have two: "map_option (map (\<lambda>a. (sa_code a, sa_price a, sa_change a)))
         (fetchAll_analyses analysts_example quotes_example market_example)
       = Some [(''300394'', 300, -2), (''600183'', 60, 3 / 2)]"
    by (simp add: fetchAll_analyses_def HOLDINGS_def quotes_example_def quoteOf_def
        market_example_def buildStockAnalysis_def Let_def)
  from one six two show ?thesis by simp
qed

text \<open>
  The earlier analyzer, for any analysts and any quote response: a holding without a quote
  has no entry in the stored analyses, each entry carries the price and change of the
  quote of its holding, and the holdings analysed are those with a quote.
\<close>

lemma HOLDINGS_cost_pos: "\<forall>h \<in> set HOLDINGS. 0 < h_cost h"
  by (simp add: HOLDINGS_def)

lemma find_Some_set: "find P xs = Some x \<Longrightarrow> x \<in> set xs \<and> P x"
  by (induction xs) (auto split: if_splits)

lemma results_from_quotes:
  assumes "r \<in> set (List.map_filter
                     (\<lambda>h. case find (\<lambda>d. q_code d = h_code h) allQuotes of
                            None \<Rightarrow> None
                          | Some q \<Rightarrow> Some (buildStockAnalysis an q h md allQuotes)) hs)"
  shows "\<exists>h \<in> set hs. \<exists>q \<in> set allQuotes.
           find (\<lambda>d. q_code d = h_code h) allQuotes = Some q \<and> sa_code r = h_code h
         \<and> sa_name r = h_name h \<and> sa_price r = current q \<and> sa_change r = percent q"
  using assms
proof (induction hs)
  case Nil
  then show ?case by simp
next
  case (Cons h hs)
  show ?case
  proof (cases "find (\<lambda>d. q_code d = h_code h) allQuotes")
    case None
    with Cons show ?thesis by auto
  next
    case (Some q)
    from find_Some_set [OF Some] have q: "q \<in> set allQuotes" "q_code q = h_code h" by auto
    from Cons.prems Some consider "r = buildStockAnalysis an q h md allQuotes"
      | "r \<in> set (List.map_filter
                     (\<lambda>h. case find (\<lambda>d. q_code d = h_code h) allQuotes of
                            None \<Rightarrow> None
                          | Some q \<Rightarrow> Some (buildStockAnalysis an q h md allQuotes)) hs)"
      by auto
    then show ?thesis
    proof cases
      case 1
      then have "sa_code r = h_code h \<and> sa_name r = h_name h \<and> sa_price r = current q
          \<and> sa_change r = percent q"
        using q by (simp add: buildStockAnalysis_def Let_def)
      with Some q show ?thesis by auto
    next
      case 2
      from Cons.IH [OF 2] show ?thesis by auto
    qed
  qed
qed

lemma results_names:
  "map sa_name (List.map_filter
                     (\<lambda>h. case find (\<lambda>d. q_code d = h_code h) allQuotes of
                            None \<Rightarrow> None
                          | Some q \<Rightarrow> Some (buildStockAnalysis an q h md allQuotes)) hs)
   = map h_name (filter (hasQuote allQuotes) hs)"
  by (induction hs) (auto simp: hasQuote_def buildStockAnalysis_def Let_def split: option.splits)

lemma fetchAll_skips_unquoted:
  assumes "fetchAll_analyses an quoteResp md = Some results"
    and "q_data quoteResp = Some allQuotes"
  shows "(\<forall>h \<in> set HOLDINGS. \<not> hasQuote allQuotes h \<longrightarrow> h_code h \<notin> sa_code ` set results)
      \<and> (\<forall>r \<in> set results. \<exists>h \<in> set HOLDINGS. \<exists>q \<in> set allQuotes.
             find (\<lambda>d. q_code d = h_code h) allQuotes = Some q \<and> sa_code r = h_code h
           \<and> sa_name r = h_name h \<and> sa_price r = current q \<and> sa_change r = percent q)
      \<and> map sa_name results = map h_name (filter (hasQuote allQuotes) HOLDINGS)"
proof -
  from assms have r: "results = List.map_filter
                     (\<lambda>h. case find (\<lambda>d. q_code d = h_code h) allQuotes of
                            None \<Rightarrow> None
                          | Some q \<Rightarrow> Some (buildStockAnalysis an q h
                              (if md_success md then md else emptyObject) allQuotes)) HOLDINGS"
    by (auto simp: fetchAll_analyses_def split: if_splits option.splits)
  have 2: "\<exists>h \<in> set HOLDINGS. \<exists>q \<in> set allQuotes.
             find (\<lambda>d. q_code d = h_code h) allQuotes = Some q \<and> sa_code x = h_code h
           \<and> sa_name x = h_name h \<and> sa_price x = current q \<and> sa_change x = percent q"
    if "x \<in> set results" for x
    using that results_from_quotes unfolding r by blast
  have 1: "h_code h \<notin> sa_code ` set results" if "\<not> hasQuote allQuotes h" for h
  proof
    assume "h_code h \<in> sa_code ` set results"
    then obtain x where "x \<in> set results" "sa_code x = h_code h" by auto
    from 2 [OF \<open>x \<in> set results\<close>]
    obtain h' :: holding and q :: StockQuote where "q \<in> set allQuotes"
      "find (\<lambda>d. q_code d = h_code h') allQuotes = Some q" "sa_code x = h_code h'" by blast
    with \<open>sa_code x = h_code h\<close> have "find (\<lambda>d. q_code d = h_code h) allQuotes = Some q"
      by simp
    with that show False by (simp add: hasQuote_def)
  qed
  have 3: "map sa_name results = map h_name (filter (hasQuote allQuotes) HOLDINGS)"
    unfolding r by (rule results_names)
  show ?thesis using 1 2 3 by blast
qed

section \<open>The buy candidate\<close>

lemma set_candidates: "set (candidates hs sts) \<subseteq> set (available hs sts)"
  by (auto simp: candidates_def)

lemma candidates_Nil_iff: "candidates hs sts = [] \<longleftrightarrow> filter eligible (available hs sts) = []"
  unfolding candidates_def by (metis length_sort length_0_conv)

lemma pick_in_available: "pick hs sts = Some p \<Longrightarrow> p \<in> set (available hs sts)"
  using set_candidates [of hs sts]
  by (auto simp: pick_def split: list.splits)

lemma pick_None_iff: "pick hs sts = None \<longleftrightarrow> available hs sts = []"
  using set_candidates [of hs sts]
  by (auto simp: pick_def split: list.splits)

lemma available_not_held: "s \<in> set (available hs sts) \<Longrightarrow> s_code s \<notin> h_code ` set hs"
  by (simp add: available_def holdingCodes_def)

lemma screen_Some:
  "screen hs tsec sts = Some c \<Longrightarrow>
   \<exists>p. pick hs sts = Some p \<and> bc_code c = s_code p \<and> score c = pickScore p"
  by (auto simp: screen_def split: option.splits)

lemma fetchAll_buyCandidate_screen:
  "fetchAll_buyCandidate md fetch = Some c \<Longrightarrow> \<exists>tsec sts. screen HOLDINGS tsec sts = Some c"
  by (auto simp: fetchAll_buyCandidate_def Let_def split: if_splits option.splits list.splits)

lemmas screen_eval =
  HOLDINGS_def stockOf_def available_def holdingCodes_def candidates_def eligible_def
  pick_def screen_def pickScore_def

text \<open>
  C4. When the pool of stocks not held is non-empty there is a pick, taken from that
  pool; when no stock of the pool has a percent change strictly between 1 and 9 and a
  positive net inflow, the filtered list is empty and the pick is the first stock of the
  unfiltered pool. \<open>fetchAll\<close> then stores a candidate.
\<close>

theorem pick_fallback:
  assumes "available hs sts = a # rest"
  shows "(\<exists>p. pick hs sts = Some p \<and> p \<in> set (available hs sts))
       \<and> ((\<forall>s \<in> set (available hs sts).
               \<not> (1 < changePct s \<and> changePct s < 9 \<and> 0 < mainNetInflow s))
            \<longrightarrow> candidates hs sts = [] \<and> pick hs sts = Some a)
       \<and> screen hs topSector sts \<noteq> None
       \<and> (md_success md \<and> sectors md = Some (topSector # others)
            \<and> sd_success (fetch (sec_code topSector)) \<and> stocks (fetch (sec_code topSector)) = sts
            \<and> hs = HOLDINGS
          \<longrightarrow> fetchAll_buyCandidate md fetch \<noteq> None)"
proof -
  from assms have ne: "pick hs sts \<noteq> None" by (simp add: pick_None_iff)
  then obtain p where p: "pick hs sts = Some p" by auto
  have 1: "\<exists>p. pick hs sts = Some p \<and> p \<in> set (available hs sts)"
    using p pick_in_available by blast
  have 2: "candidates hs sts = [] \<and> pick hs sts = Some a"
    if "\<forall>s \<in> set (available hs sts).
          \<not> (1 < changePct s \<and> changePct s < 9 \<and> 0 < mainNetInflow s)"
  proof -
    from that have "filter eligible (available hs sts) = []"
      by (simp add: filter_empty_conv eligible_def)
    then have "candidates hs sts = []" by (simp add: candidates_Nil_iff)
    with assms show ?thesis by (simp add: pick_def)
  qed
  have 3: "screen hs topSector sts \<noteq> None"
    using p by (simp add: screen_def)
  have 4: "fetchAll_buyCandidate md fetch \<noteq> None"
    if "md_success md \<and> sectors md = Some (topSector # others)
            \<and> sd_success (fetch (sec_code topSector)) \<and> stocks (fetch (sec_code topSector)) = sts
            \<and> hs = HOLDINGS"
    using that 3 by (simp add: fetchAll_buyCandidate_def)
  show ?thesis using 1 2 3 4 by blast
qed

theorem pick_fallback_witness:
  "available HOLDINGS stocks_none_eligible
     = [stockOf ''000002'' 0.5 300000000, stockOf ''000004'' 10 500000000]
   \<and> candidates HOLDINGS stocks_none_eligible = []
   \<and> pick HOLDINGS stocks_none_eligible = Some (stockOf ''000002'' 0.5 300000000)
   \<and> fetchAll_buyCandidate market_example sectorStocks_example \<noteq> None"
proof -
  have av: "available HOLDINGS stocks_none_eligible
      = stockOf ''000002'' 0.5 300000000 # [stockOf ''000004'' 10 500000000]"
    by (simp add: stocks_none_eligible_def screen_eval)
  have el: "\<forall>s \<in> set (available HOLDINGS stocks_none_eligible).
      \<not> (1 < changePct s \<and> changePct s < 9 \<and> 0 < mainNetInflow s)"
    unfolding av by (simp add: stockOf_def)
  have md: "md_success market_example \<and> sectors market_example = Some (sector_example # [])
      \<and> sd_success (sectorStocks_example (sec_code sector_example))
      \<and> stocks (sectorStocks_example (sec_code sector_example)) = stocks_none_eligible
      \<and> HOLDINGS = HOLDINGS"
    by (simp add: market_example_def sectorStocks_example_def)
  from pick_fallback [OF av, where topSector = sector_example and md = market_example
      and others = "[]" and fetch = sectorStocks_example] el md
  have "candidates HOLDINGS stocks_none_eligible = []
      \<and> pick HOLDINGS stocks_none_eligible = Some (stockOf ''000002'' 0.5 300000000)
      \<and> fetchAll_buyCandidate market_example sectorStocks_example \<noteq> None"
    by blast
  with av show ?thesis by simp
qed

text \<open>
  C5. The code of a holding is never the code of a stock in the candidate pool, so it is
  never the code of the pick nor of the stored buy candidate.
\<close>

theorem pick_not_held:
  assumes "h \<in> set hs"
  shows "h_code h \<notin> s_code ` set (available hs sts)
       \<and> h_code h \<notin> s_code ` set (candidates hs sts)
       \<and> (\<forall>p. pick hs sts = Some p \<longrightarrow> s_code p \<noteq> h_code h)
       \<and> (\<forall>c. screen hs topSector sts = Some c \<longrightarrow> bc_code c \<noteq> h_code h)
       \<and> (hs = HOLDINGS \<longrightarrow>
            (\<forall>c. fetchAll_buyCandidate md fetch = Some c \<longrightarrow> bc_code c \<noteq> h_code h))"
proof -
  have 1: "h_code h \<notin> s_code ` set (available hs xs)" for xs
    using assms available_not_held [of _ hs xs] by force
  have cs: "h_code h \<notin> s_code ` set (candidates hs sts)"
    using 1 [of sts] set_candidates [of hs sts] by blast
  have 2: "s_code p \<noteq> h_code h" if "pick hs xs = Some p" for p xs
    using pick_in_available [OF that] 1 [of xs] by force
  have 3: "bc_code c \<noteq> h_code h" if "screen hs tsec xs = Some c" for c tsec xs
    using screen_Some [OF that] 2 by metis
  have 4: "bc_code c \<noteq> h_code h" if "hs = HOLDINGS" "fetchAll_buyCandidate md fetch = Some c" for c
    using fetchAll_buyCandidate_screen [OF that(2)] 3 that(1) by metis
  show ?thesis using 1 cs 2 3 4 by blast
qed

theorem pick_not_held_witness:
  "hd HOLDINGS \<in> set HOLDINGS \<and> h_code (hd HOLDINGS) = ''300394''
   \<and> ''300394'' \<in> s_code ` set stocks_with_held
   \<and> pick HOLDINGS stocks_with_held = Some (stockOf ''000004'' 4 500000000)
   \<and> s_code (stockOf ''000004'' 4 500000000) \<noteq> h_code (hd HOLDINGS)"
proof -
  have m: "hd HOLDINGS \<in> set HOLDINGS" by (simp add: HOLDINGS_def)
  have c: "h_code (hd HOLDINGS) = ''300394''" by (simp add: HOLDINGS_def)
  have i: "''300394'' \<in> s_code ` set stocks_with_held"
    by (simp add: stocks_with_held_def stockOf_def)
  have p: "pick HOLDINGS stocks_with_held = Some (stockOf ''000004'' 4 500000000)"
    by (simp add: stocks_with_held_def screen_eval)
  from pick_not_held [OF m, where sts = stocks_with_held] p
  have "s_code (stockOf ''000004'' 4 500000000) \<noteq> h_code (hd HOLDINGS)" by blast
  with m c i p show ?thesis by simp
qed

text \<open>
  C7, as stated, fails. The score is computed from the signed net inflow alone, and the
  fallback can pick a stock with a net outflow: of two such picks, the one with the larger
  magnitude of flow has the smaller score.
\<close>

theorem pickScore_magnitude_counterexample:
  "pick HOLDINGS [outflow_small] = Some outflow_small
   \<and> pick HOLDINGS [outflow_large] = Some outflow_large
   \<and> \<bar>mainNetInflow outflow_small\<bar> < \<bar>mainNetInflow outflow_large\<bar>
   \<and> map_option score (screen HOLDINGS sector_example [outflow_small]) = Some 58
   \<and> map_option score (screen HOLDINGS sector_example [outflow_large]) = Some 56
   \<and> pickScore outflow_large < pickScore outflow_small"
  by (simp add: outflow_small_def outflow_large_def screen_eval)

text \<open>
  C7, amended. The score of the stored candidate is min(85, 60 + inflow / 1e8 * 2) for the
  net inflow of the pick. It is a function of that inflow only (picks with equal inflow
  have equal scores; no confidence enters it), and it is monotonically non-decreasing in
  the signed net inflow.
\<close>

theorem pickScore_inflow:
  "(screen hs topSector sts = Some c \<longrightarrow>
      (\<exists>p. pick hs sts = Some p \<and> bc_code c = s_code p
          \<and> score c = min 85 (60 + mainNetInflow p / 100000000 * 2)))
   \<and> (mainNetInflow p1 = mainNetInflow p2 \<longrightarrow> pickScore p1 = pickScore p2)
   \<and> (mainNetInflow p1 \<le> mainNetInflow p2 \<longrightarrow> pickScore p1 \<le> pickScore p2)"
  using screen_Some [of hs topSector sts c]
  by (auto simp: pickScore_def)

theorem pickScore_inflow_witness:
  "screen HOLDINGS sector_example stocks_with_held = Some candidate_example
   \<and> (\<exists>p. pick HOLDINGS stocks_with_held = Some p \<and> bc_code candidate_example = s_code p
          \<and> score candidate_example = min 85 (60 + mainNetInflow p / 100000000 * 2))
   \<and> mainNetInflow (stockOf ''000002'' 2 100000000) \<le> mainNetInflow (stockOf ''000004'' 4 500000000)
   \<and> pickScore (stockOf ''000002'' 2 100000000) = 62
   \<and> pickScore (stockOf ''000004'' 4 500000000) = 70
   \<and> pickScore (stockOf ''000002'' 2 100000000) \<le> pickScore (stockOf ''000004'' 4 500000000)"
proof -
  have s: "screen HOLDINGS sector_example stocks_with_held = Some candidate_example"
    by (simp add: stocks_with_held_def sector_example_def candidate_example_def screen_eval)
  have le: "mainNetInflow (stockOf ''000002'' 2 100000000)
      \<le> mainNetInflow (stockOf ''000004'' 4 500000000)"
    by (simp add: stockOf_def)
  have v: "pickScore (stockOf ''000002'' 2 100000000) = 62
      \<and> pickScore (stockOf ''000004'' 4 500000000) = 70"
    by (simp add: stockOf_def pickScore_def)
  from pickScore_inflow [where hs = HOLDINGS and topSector = sector_example
      and sts = stocks_with_held and c = candidate_example
      and ?p1.0 = "stockOf ''000002'' 2 100000000"
      and ?p2.0 = "stockOf ''000004'' 4 500000000"] s le
  have "(\<exists>p. pick HOLDINGS stocks_with_held = Some p \<and> bc_code candidate_example = s_code p
          \<and> score candidate_example = min 85 (60 + mainNetInflow p / 100000000 * 2))
     \<and> pickScore (stockOf ''000002'' 2 100000000) \<le> pickScore (stockOf ''000004'' 4 500000000)"
    by blast
  with s le v show ?thesis by simp
qed

end
